theory Spec2Isabelle
  imports Complex_Main
begin

section \<open>JavaScript values used by the sources\<close>

text \<open>
  Numbers are modelled as rationals; an optional object field is an \<open>option\<close>
  (\<open>None\<close> is \<open>undefined\<close>).  The operator \<open>a || d\<close> yields \<open>d\<close> when \<open>a\<close> is falsy:
  \<open>undefined\<close>, the number \<open>0\<close> or the empty string.
\<close>

datatype error = LoadError string | StageError | TypeError string | Thrown string

definition num_or :: "rat option \<Rightarrow> rat \<Rightarrow> rat" where
  "num_or v d = (case v of None \<Rightarrow> d | Some n \<Rightarrow> if n = 0 then d else n)"

definition str_or :: "string option \<Rightarrow> string \<Rightarrow> string" where
  "str_or v d = (case v of None \<Rightarrow> d | Some s \<Rightarrow> if s = [] then d else s)"

definition truthy_str :: "string option \<Rightarrow> bool" where
  "truthy_str v = (case v of None \<Rightarrow> False | Some s \<Rightarrow> s \<noteq> [])"

definition truthy_num :: "rat option \<Rightarrow> bool" where
  "truthy_num v = (case v of None \<Rightarrow> False | Some n \<Rightarrow> n \<noteq> 0)"

section \<open>The slide model read by \<open>generateThumbnail.js\<close>\<close>

record element =
  etype :: string
  ex :: "rat option"
  ey :: "rat option"
  ewidth :: "rat option"
  eheight :: "rat option"
  rotation :: "rat option"
  content :: "string option"
  fontSize :: "rat option"
  fontFamily :: "string option"
  fontStyle :: "string option"
  color :: "string option"
  textAlign :: "string option"
  shapeType :: "string option"
  fillColor :: "string option"
  borderColor :: "string option"
  borderWidth :: "rat option"
  src :: "string option"
  rows :: "nat option"
  cols :: "nat option"

record gradient =
  gtype :: "string option"
  colors :: "string list option"

record slide =
  sid :: string
  backgroundImage :: "string option"
  backgroundGradient :: "gradient option"
  backgroundColor :: "string option"
  elements :: "element list option"

text \<open>The Konva nodes the compositor adds to its layer, with the attributes it sets.\<close>

datatype fill =
    Solid string
  | LinearGradient "rat \<times> rat" "rat \<times> rat" "(rat \<times> string) list"
  | RadialGradient "rat \<times> rat" "rat \<times> rat" rat rat "(rat \<times> string) list"

datatype node =
    KImage rat rat rat rat string rat
      \<comment> \<open>x, y, width, height, image source, rotation\<close>
  | KRect rat rat rat rat fill string rat rat rat
      \<comment> \<open>x, y, width, height, fill, stroke, strokeWidth, cornerRadius, rotation\<close>
  | KCircle rat rat rat string string rat rat
      \<comment> \<open>x, y, radius, fill, stroke, strokeWidth, rotation\<close>
  | KText rat rat rat rat string rat string string string string
      \<comment> \<open>x, y, width, height, text, fontSize, fontFamily, fontStyle, fill, align\<close>
  | KLine "rat list" string rat
      \<comment> \<open>points, stroke, strokeWidth\<close>

text \<open>
  What the compositor receives from outside: whether an \<open>Image\<close> with a given source
  fires \<open>onload\<close> (rather than \<open>onerror\<close>), the delegated chart rasteriser
  \<open>renderChartToImage\<close> (\<open>None\<close>: its promise rejects), whether \<open>new Konva.Stage\<close>
  succeeds, and the encoder \<open>stage.toDataURL\<close>.
\<close>

record env =
  imageLoads :: "string \<Rightarrow> bool"
  renderChartToImage :: "element \<Rightarrow> string option"
  stageCreates :: bool
  toDataURL :: "node list \<Rightarrow> string"

text \<open>
  The part of the document the compositor mutates: the children of \<open>document.body\<close>
  and the Konva stages that have been created and not destroyed.
\<close>

record dom =
  bodyChildren :: "nat list"
  stages :: "nat list"
  fresh :: nat

subsection \<open>Background\<close>

definition colorStops :: "string list \<Rightarrow> (rat \<times> string) list" where
  "colorStops cs =
     map (\<lambda>i. (if length cs > 1 then rat_of_nat i / rat_of_nat (length cs - 1) else 0, cs ! i))
       [0..<length cs]"

definition gradientRect :: "gradient \<Rightarrow> node" where
  "gradientRect g =
     (let gradientType = str_or (gtype g) ''linear'';
          cols = (case colors g of None \<Rightarrow> [''#ffffff''] | Some cs \<Rightarrow> cs);
          stops = colorStops cols
      in if gradientType = ''radial''
         then KRect 0 0 1024 576 (RadialGradient (512, 288) (512, 288) 0 (max 1024 576) stops) [] 0 0 0
         else KRect 0 0 1024 576 (LinearGradient (0, 0) (1024, 576) stops) [] 0 0 0)"

definition renderBackground :: "env \<Rightarrow> slide \<Rightarrow> error + node list" where
  "renderBackground e s =
     (if truthy_str (backgroundImage s) then
        (if imageLoads e (the (backgroundImage s))
         then Inr [KImage 0 0 1024 576 (the (backgroundImage s)) 0]
         else Inl (LoadError (the (backgroundImage s))))
      else (case backgroundGradient s of
          Some g \<Rightarrow> Inr [gradientRect g]
        | None \<Rightarrow>
          (if truthy_str (backgroundColor s)
           then Inr [KRect 0 0 1024 576 (Solid (str_or (backgroundColor s) ''#ffffff'')) [] 0 0 0]
           else Inr [KRect 0 0 1024 576 (Solid ''#ffffff'') [] 0 0 0])))"

subsection \<open>Elements\<close>

definition rot :: "element \<Rightarrow> rat" where
  "rot el = (if truthy_num (rotation el) then the (rotation el) else 0)"

definition renderText :: "element \<Rightarrow> node list" where
  "renderText el =
     [KText (num_or (ex el) 0) (num_or (ey el) 0) (num_or (ewidth el) 200) (num_or (eheight el) 50)
        (str_or (content el) []) (num_or (fontSize el) 16) (str_or (fontFamily el) ''Arial'')
        (str_or (fontStyle el) ''normal'') (str_or (color el) ''#000000'')
        (str_or (textAlign el) ''left'')]"

definition renderShape :: "element \<Rightarrow> node list" where
  "renderShape el =
     (let shapeTy = str_or (shapeType el) ''rectangle''
      in if shapeTy = ''circle''
         then [KCircle (num_or (ex el) 0 + num_or (ewidth el) 100 / 2)
                 (num_or (ey el) 0 + num_or (eheight el) 100 / 2)
                 (min (num_or (ewidth el) 100 / 2) (num_or (eheight el) 100 / 2))
                 (str_or (fillColor el) ''#2d9cdb'') (str_or (borderColor el) ''transparent'')
                 (num_or (borderWidth el) 0) (rot el)]
         else [KRect (num_or (ex el) 0) (num_or (ey el) 0) (num_or (ewidth el) 100)
                 (num_or (eheight el) 100) (Solid (str_or (fillColor el) ''#2d9cdb''))
                 (str_or (borderColor el) ''transparent'') (num_or (borderWidth el) 0)
                 (if shapeTy = ''rounded'' then 10 else 0) (rot el)])"

text \<open>
  An image element: \<open>onerror\<close> logs a warning and resolves, so a failed load adds nothing.
  Assigning an undefined \<open>src\<close> loads the text \<open>undefined\<close>.
\<close>

definition srcOf :: "element \<Rightarrow> string" where
  "srcOf el = (case src el of None \<Rightarrow> ''undefined'' | Some s \<Rightarrow> s)"

definition renderImage :: "env \<Rightarrow> element \<Rightarrow> node list" where
  "renderImage e el =
     (if imageLoads e (srcOf el)
      then [KImage (num_or (ex el) 0) (num_or (ey el) 0) (num_or (ewidth el) 200)
              (num_or (eheight el) 200) (srcOf el) (rot el)]
      else [])"

text \<open>
  A chart element: the rasteriser's output is decoded as an image; when the rasteriser
  rejects or the decode fails, the inner \<open>catch\<close> adds a placeholder rectangle.
\<close>

definition chartPlaceholder :: "element \<Rightarrow> node" where
  "chartPlaceholder el =
     KRect (num_or (ex el) 0) (num_or (ey el) 0) (num_or (ewidth el) 360) (num_or (eheight el) 240)
       (Solid ''#f0f0f0'') ''#ddd'' 1 0 0"

definition renderChart :: "env \<Rightarrow> element \<Rightarrow> node list" where
  "renderChart e el =
     (case renderChartToImage e el of
        None \<Rightarrow> [chartPlaceholder el]
      | Some chartImageData \<Rightarrow>
          if imageLoads e chartImageData
          then [KImage (num_or (ex el) 0) (num_or (ey el) 0) (num_or (ewidth el) 360)
                  (num_or (eheight el) 240) chartImageData (rot el)]
          else [chartPlaceholder el])"

definition truthy_nat :: "nat option \<Rightarrow> bool" where
  "truthy_nat v = (case v of None \<Rightarrow> False | Some n \<Rightarrow> n \<noteq> 0)"

definition renderTable :: "element \<Rightarrow> node list" where
  "renderTable el =
     KRect (num_or (ex el) 0) (num_or (ey el) 0) (num_or (ewidth el) 400) (num_or (eheight el) 200)
       (Solid ''#ffffff'') ''#ddd'' 1 0 0 #
     (if truthy_nat (rows el) \<and> truthy_nat (cols el) then
        (let cellWidth = num_or (ewidth el) 400 / rat_of_nat (the (cols el));
             cellHeight = num_or (eheight el) 200 / rat_of_nat (the (rows el))
         in map (\<lambda>i. KLine [num_or (ex el) 0, num_or (ey el) 0 + rat_of_nat i * cellHeight,
                            num_or (ex el) 0 + num_or (ewidth el) 400,
                            num_or (ey el) 0 + rat_of_nat i * cellHeight] ''#ddd'' 1)
              [1..<the (rows el)] @
            map (\<lambda>i. KLine [num_or (ex el) 0 + rat_of_nat i * cellWidth, num_or (ey el) 0,
                            num_or (ex el) 0 + rat_of_nat i * cellWidth,
                            num_or (ey el) 0 + num_or (eheight el) 200] ''#ddd'' 1)
              [1..<the (cols el)])
      else [])"

text \<open>The \<open>if\<close>/\<open>else if\<close> chain on \<open>element.type\<close>; an unrecognised type adds nothing.\<close>

definition renderElement :: "env \<Rightarrow> element \<Rightarrow> node list" where
  "renderElement e el =
     (if etype el = ''text'' then renderText el
      else if etype el = ''shape'' then renderShape el
      else if etype el = ''image'' then renderImage e el
      else if etype el = ''chart'' then renderChart e el
      else if etype el = ''table'' then renderTable el
      else [])"

text \<open>
  The \<open>for (const element of slide.elements)\<close> loop: each element is awaited before the
  next one starts, and \<open>layer.add\<close> appends to the layer's children.  The Konva
  constructors are taken not to throw, so the only failures inside the loop are the
  resource failures that the branches above handle themselves.
\<close>

fun renderElements :: "env \<Rightarrow> element list \<Rightarrow> node list \<Rightarrow> node list" where
  "renderElements e [] layer = layer"
| "renderElements e (el # els) layer = renderElements e els (layer @ renderElement e el)"

definition elementsOf :: "slide \<Rightarrow> element list" where
  "elementsOf s = (case elements s of None \<Rightarrow> [] | Some els \<Rightarrow> els)"

subsection \<open>\<open>generateSlideThumbnail\<close>\<close>

text \<open>
  The body of the promise executor.  The container is appended to \<open>document.body\<close>
  before the stage is created; \<open>stage.destroy()\<close> and \<open>removeChild\<close> are in the
  \<open>try\<close> block after \<open>toDataURL\<close>; the \<open>catch\<close> block logs and rejects.
\<close>

definition generateSlideThumbnail :: "env \<Rightarrow> slide \<Rightarrow> dom \<Rightarrow> (error + string) \<times> dom" where
  "generateSlideThumbnail e s d =
     (let container = fresh d;
          d1 = d\<lparr>bodyChildren := bodyChildren d @ [container], fresh := Suc (fresh d)\<rparr>
      in if \<not> stageCreates e then (Inl StageError, d1)
         else
           (let d2 = d1\<lparr>stages := stages d1 @ [container]\<rparr>
            in case renderBackground e s of
                 Inl err \<Rightarrow> (Inl err, d2)
               | Inr bg \<Rightarrow>
                   (let layer = renderElements e (elementsOf s) bg;
                        dataURL = toDataURL e layer;
                        d3 = d2\<lparr>stages := remove1 container (stages d2)\<rparr>;
                        d4 = d3\<lparr>bodyChildren := remove1 container (bodyChildren d3)\<rparr>
                    in (Inr dataURL, d4))))"

subsection \<open>\<open>generateAllSlideThumbnails\<close>\<close>

text \<open>
  An entry of the \<open>slides\<close> array may be \<open>null\<close> or \<open>undefined\<close> (\<open>None\<close>).  Called on such
  an entry, \<open>generateSlideThumbnail\<close> appends the container and creates the stage as for
  any slide; then reading \<open>slide.backgroundImage\<close> throws a \<open>TypeError\<close> inside the \<open>try\<close>
  block, and the \<open>catch\<close> block rejects with it.
\<close>

definition generateSlideThumbnailEntry :: "env \<Rightarrow> slide option \<Rightarrow> dom \<Rightarrow> (error + string) \<times> dom" where
  "generateSlideThumbnailEntry e entry d =
     (case entry of
        Some s \<Rightarrow> generateSlideThumbnail e s d
      | None \<Rightarrow>
          (let container = fresh d;
               d1 = d\<lparr>bodyChildren := bodyChildren d @ [container], fresh := Suc (fresh d)\<rparr>
           in if \<not> stageCreates e then (Inl StageError, d1)
              else (Inl (TypeError ''backgroundImage''), d1\<lparr>stages := stages d1 @ [container]\<rparr>)))"

text \<open>
  The batch loop.  A rejected render is caught; the \<open>catch\<close> block logs a message built
  from \<open>slide.id\<close> and the loop goes on.  For a \<open>null\<close> or \<open>undefined\<close> entry, reading
  \<open>slide.id\<close> throws a \<open>TypeError\<close>: in the \<open>catch\<close> block nothing catches it, so the loop
  stops and the promise of \<open>generateAllSlideThumbnails\<close> rejects (\<open>Inl\<close>).
\<close>

fun thumbnailLoop :: "env \<Rightarrow> slide option list \<Rightarrow> (string \<times> string) list \<Rightarrow> dom
    \<Rightarrow> (error + (string \<times> string) list) \<times> dom" where
  "thumbnailLoop e [] thumbnails d = (Inr thumbnails, d)"
| "thumbnailLoop e (entry # ss) thumbnails d =
     (case generateSlideThumbnailEntry e entry d of
        (Inr thumbnail, d') \<Rightarrow>
          (case entry of
             Some s \<Rightarrow> thumbnailLoop e ss (thumbnails @ [(sid s, thumbnail)]) d'
           | None \<Rightarrow> (Inl (TypeError ''id''), d'))
      | (Inl err, d') \<Rightarrow>
          (case entry of
             Some s \<Rightarrow> thumbnailLoop e ss thumbnails d'
           | None \<Rightarrow> (Inl (TypeError ''id''), d')))"

definition generateAllSlideThumbnails :: "env \<Rightarrow> slide option list \<Rightarrow> dom
    \<Rightarrow> (error + (string \<times> string) list) \<times> dom" where
  "generateAllSlideThumbnails e ss d = thumbnailLoop e ss [] d"

section \<open>The save handler of \<open>ChartOptions.js\<close>\<close>

datatype jsval = Undefined | Null | Num rat

record series =
  sname :: string
  svalues :: "jsval list"

record chartElement =
  elId :: string
  chartType :: string

text \<open>
  The \<open>updates\<close> object handed to \<open>updateSlideElement\<close>: its data fields and the
  optional \<open>__internal\<close> marker that \<open>handleSaveData\<close> adds with an object spread.
\<close>

record 'a updates =
  payload :: 'a
  internal :: "string option"

record saveOptions =
  isLive :: "bool option"

record snapshotArg =
  snapSlides :: "slide list"
  snapSelectedElement :: chartElement
  snapCurrentSlideIndex :: nat

text \<open>
  The props of \<open>ChartOptions\<close> that \<open>handleSaveData\<close> reads.  A collaborator returns
  \<open>Some err\<close> when it throws; the prop \<open>pushSnapshot\<close> may be absent.
\<close>

record 'a chartOptionsProps =
  selectedElement :: "chartElement option"
  slides :: "slide list"
  currentSlideIndex :: nat
  pushSnapshot :: "(snapshotArg \<Rightarrow> error option) option"
  updateSlideElement :: "string \<Rightarrow> 'a updates \<Rightarrow> error option"

datatype 'a call =
    PushSnapshot snapshotArg
  | ConsoleError string error
  | UpdateSlideElement string "'a updates"

definition isLiveUpdate :: "saveOptions \<Rightarrow> bool" where
  "isLiveUpdate options = (case isLive options of None \<Rightarrow> False | Some b \<Rightarrow> b)"

text \<open>
  \<open>handleSaveData\<close> returns the error it throws (if any), the new value of
  \<open>hasLiveSnapshotRef.current\<close> and the calls it made, in order.  In the save branch the
  assignment \<open>hasLiveSnapshotRef.current = false\<close> follows the call of
  \<open>updateSlideElement\<close>, so it is skipped when that call throws.
\<close>

definition handleSaveData ::
  "'a chartOptionsProps \<Rightarrow> bool \<Rightarrow> 'a updates \<Rightarrow> saveOptions \<Rightarrow> error option \<times> bool \<times> 'a call list"
where
  "handleSaveData p hasLiveSnapshotRef upd options =
     (case selectedElement p of
        None \<Rightarrow> (None, hasLiveSnapshotRef, [])
      | Some el \<Rightarrow>
          if isLiveUpdate options then
            (let arg = \<lparr>snapSlides = slides p, snapSelectedElement = el,
                        snapCurrentSlideIndex = currentSlideIndex p\<rparr>;
                 snap = (case pushSnapshot p of
                           None \<Rightarrow> []
                         | Some f \<Rightarrow>
                             (case f arg of
                                None \<Rightarrow> [PushSnapshot arg]
                              | Some err \<Rightarrow>
                                  [PushSnapshot arg,
                                   ConsoleError ''Failed to snapshot chart edit:'' err]));
                 u = upd\<lparr>internal := Some ''chart-live''\<rparr>
             in (updateSlideElement p (elId el) u, True, snap @ [UpdateSlideElement (elId el) u]))
          else
            (let u = (if hasLiveSnapshotRef then upd\<lparr>internal := Some ''chart-save''\<rparr> else upd)
             in case updateSlideElement p (elId el) u of
                  Some err \<Rightarrow> (Some err, hasLiveSnapshotRef, [UpdateSlideElement (elId el) u])
                | None \<Rightarrow> (None, False, [UpdateSlideElement (elId el) u])))"

text \<open>
  One editing session of the chart data modal on one selected element: the flag starts
  \<open>False\<close> (the effect on \<open>[selectedElement?.id, isDataModalOpen]\<close> resets it), and the
  save actions of the burst run in order.
\<close>

record 'a chartOptionsState =
  hasLiveSnapshot :: bool
  callLog :: "'a call list"

definition sessionStart :: "'a chartOptionsState" where
  "sessionStart = \<lparr>hasLiveSnapshot = False, callLog = []\<rparr>"

fun runSaves :: "'a chartOptionsProps \<Rightarrow> ('a updates \<times> saveOptions) list \<Rightarrow> 'a chartOptionsState
    \<Rightarrow> 'a chartOptionsState" where
  "runSaves p [] st = st"
| "runSaves p ((upd, options) # acts) st =
     (case handleSaveData p (hasLiveSnapshot st) upd options of
        (err, flag, made) \<Rightarrow>
          runSaves p acts \<lparr>hasLiveSnapshot = flag, callLog = callLog st @ made\<rparr>)"

definition liveOpt :: saveOptions where
  "liveOpt = \<lparr>isLive = Some True\<rparr>"

definition saveOpt :: saveOptions where
  "saveOpt = \<lparr>isLive = None\<rparr>"

text \<open>
  Modelled from the spec: \<open>updateSlideElement\<close> is defined outside the files under
  \<open>src/\<close>.  The spec requires an explicit save with no prior live edits to request
  exactly one snapshot of its own, and the comments of \<open>handleSaveData\<close> say that
  \<open>updateSlideElement\<close> saves the snapshot "normally" and that the \<open>__internal\<close> marker
  prevents it from creating another snapshot.  So one call of \<open>updateSlideElement\<close>
  requests one snapshot exactly when its updates carry no marker.
\<close>

definition updateSlideElementSnapshots :: "'a updates \<Rightarrow> nat" where
  "updateSlideElementSnapshots u = (if internal u = None then 1 else 0)"

fun snapshotsOf :: "'a call \<Rightarrow> nat" where
  "snapshotsOf (PushSnapshot arg) = 1"
| "snapshotsOf (ConsoleError msg err) = 0"
| "snapshotsOf (UpdateSlideElement i u) = updateSlideElementSnapshots u"

definition snapshotRequests :: "'a call list \<Rightarrow> nat" where
  "snapshotRequests cs = sum_list (map snapshotsOf cs)"

section \<open>The debounced live updates of \<open>useLiveUpdates\<close>\<close>

text \<open>
  The hook's arguments at one render.  \<open>padChartData\<close> is imported from a file that is
  not under \<open>src/\<close> and \<open>JSON.stringify\<close> is a builtin: both are parameters.
\<close>

record 'a hookProps =
  isOpen :: bool
  element :: "chartElement option"
  labels :: "string list"
  hseries :: "series list"
  onSave :: "('a updates \<Rightarrow> saveOptions \<Rightarrow> error option) option"

record 'a hookDeps =
  padChartData :: "string list \<Rightarrow> series list \<Rightarrow> string \<Rightarrow> chartElement \<Rightarrow> 'a updates"
  stringify :: "'a updates \<Rightarrow> string"

text \<open>
  The refs of the hook, what React keeps between renders (the previous \<open>isOpen\<close> and
  whether the last run of the live-update effect returned a cleanup function), the
  browser's table of pending timers (identifier, deadline in ms, the props captured by
  the callback's closure), and a log of the calls of \<open>onSave\<close> with the time of each.
\<close>

record 'a hookState =
  updateTimeoutRef :: "nat option"
  isInitialLoadRef :: bool
  initializedRef :: bool
  lastSavedDataRef :: "string option"
  onSaveRef :: "('a updates \<Rightarrow> saveOptions \<Rightarrow> error option) option"
  prevIsOpen :: "bool option"
  liveCleanup :: bool
  timers :: "(nat \<times> nat \<times> 'a hookProps) list"
  nextTimer :: nat
  saveCalls :: "(nat \<times> 'a updates \<times> saveOptions) list"
  uncaught :: "error list"

definition mountState :: "'a hookProps \<Rightarrow> 'a hookState" where
  "mountState p =
     \<lparr>updateTimeoutRef = None, isInitialLoadRef = True, initializedRef = False,
      lastSavedDataRef = None, onSaveRef = onSave p, prevIsOpen = None, liveCleanup = False,
      timers = [], nextTimer = 1, saveCalls = [], uncaught = []\<rparr>"

definition clearTimeout :: "nat \<Rightarrow> 'a hookState \<Rightarrow> 'a hookState" where
  "clearTimeout i st = st\<lparr>timers := filter (\<lambda>tm. fst tm \<noteq> i) (timers st)\<rparr>"

definition clearCurrent :: "'a hookState \<Rightarrow> 'a hookState" where
  \<comment> \<open>\<open>if (updateTimeoutRef.current) clearTimeout(updateTimeoutRef.current)\<close>\<close>
  "clearCurrent st = (case updateTimeoutRef st of None \<Rightarrow> st | Some i \<Rightarrow> clearTimeout i st)"

definition padded :: "'a hookDeps \<Rightarrow> 'a hookProps \<Rightarrow> 'a updates" where
  "padded dp p = padChartData dp (labels p) (hseries p) (chartType (the (element p))) (the (element p))"

definition hasData :: "'a hookProps \<Rightarrow> bool" where
  "hasData p = (isOpen p \<and> element p \<noteq> None \<and> labels p \<noteq> [] \<and> hseries p \<noteq> [])"

text \<open>The effect on \<open>[isOpen]\<close>: reset on open, cancel the timer and reset on close.\<close>

definition resetEffect :: "'a hookProps \<Rightarrow> 'a hookState \<Rightarrow> 'a hookState" where
  "resetEffect p st =
     (if isOpen p then
        st\<lparr>isInitialLoadRef := True, initializedRef := False, lastSavedDataRef := None\<rparr>
      else
        (let st1 = (case updateTimeoutRef st of
                      None \<Rightarrow> st
                    | Some i \<Rightarrow> (clearTimeout i st)\<lparr>updateTimeoutRef := None\<rparr>)
         in st1\<lparr>isInitialLoadRef := True, initializedRef := False, lastSavedDataRef := None\<rparr>))"

text \<open>The effect that records the initial data as the first fingerprint.\<close>

definition initEffect :: "'a hookDeps \<Rightarrow> 'a hookProps \<Rightarrow> 'a hookState \<Rightarrow> 'a hookState" where
  "initEffect dp p st =
     (if hasData p \<and> \<not> initializedRef st then
        st\<lparr>lastSavedDataRef := Some (stringify dp (padded dp p)), initializedRef := True,
           isInitialLoadRef := True\<rparr>
      else st)"

text \<open>
  The live-update effect at time \<open>now\<close>.  Every early \<open>return\<close> returns no cleanup
  function; the path that arms the timer returns one.
\<close>

definition setTimeout300 :: "nat \<Rightarrow> 'a hookProps \<Rightarrow> 'a hookState \<Rightarrow> 'a hookState" where
  "setTimeout300 now p st =
     st\<lparr>timers := timers st @ [(nextTimer st, now + 300, p)],
        updateTimeoutRef := Some (nextTimer st), nextTimer := Suc (nextTimer st)\<rparr>"

definition liveEffect :: "'a hookDeps \<Rightarrow> nat \<Rightarrow> 'a hookProps \<Rightarrow> 'a hookState \<Rightarrow> 'a hookState" where
  "liveEffect dp now p st =
     (if \<not> hasData p then st\<lparr>liveCleanup := False\<rparr>
      else if chartType (the (element p)) = ''pie'' then st\<lparr>liveCleanup := False\<rparr>
      else if \<not> initializedRef st then st\<lparr>liveCleanup := False\<rparr>
      else if isInitialLoadRef st \<and> Some (stringify dp (padded dp p)) = lastSavedDataRef st
        then st\<lparr>liveCleanup := False\<rparr>
      else
        (let st1 = st\<lparr>isInitialLoadRef := False\<rparr> in
         if Some (stringify dp (padded dp p)) = lastSavedDataRef st1
         then st1\<lparr>liveCleanup := False\<rparr>
         else (setTimeout300 now p (clearCurrent st1))\<lparr>liveCleanup := True\<rparr>))"

text \<open>
  One render whose dependencies changed, committed at time \<open>now\<close>: React first runs the
  cleanup of the previous live-update effect, then the effects in source order.
\<close>

definition renderHook :: "'a hookDeps \<Rightarrow> nat \<Rightarrow> 'a hookProps \<Rightarrow> 'a hookState \<Rightarrow> 'a hookState" where
  "renderHook dp now p st =
     (let st0 = (if liveCleanup st then clearCurrent st else st);
          st1 = st0\<lparr>onSaveRef := onSave p\<rparr>;
          st2 = (if prevIsOpen st \<noteq> Some (isOpen p) then resetEffect p st1 else st1);
          st3 = initEffect dp p st2;
          st4 = liveEffect dp now p st3
      in st4\<lparr>prevIsOpen := Some (isOpen p)\<rparr>)"

text \<open>
  The timer callback, run at time \<open>now\<close> for the timer \<open>tm\<close>: the fingerprint is assigned
  first, then \<open>onSaveRef.current\<close> is called; nothing catches what it throws.
\<close>

definition fireTimer :: "'a hookDeps \<Rightarrow> nat \<Rightarrow> nat \<times> nat \<times> 'a hookProps \<Rightarrow> 'a hookState \<Rightarrow> 'a hookState" where
  "fireTimer dp now tm st =
     (let p = snd (snd tm);
          finalData = padded dp p;
          st1 = (clearTimeout (fst tm) st)\<lparr>lastSavedDataRef := Some (stringify dp finalData)\<rparr>
      in case onSaveRef st1 of
           None \<Rightarrow> st1
         | Some f \<Rightarrow>
             (let st2 = st1\<lparr>saveCalls := saveCalls st1 @ [(now, finalData, \<lparr>isLive = Some True\<rparr>)]\<rparr>
              in case f finalData \<lparr>isLive = Some True\<rparr> of
                   None \<Rightarrow> st2
                 | Some err \<Rightarrow> st2\<lparr>uncaught := uncaught st2 @ [err]\<rparr>))"

text \<open>
  Time passes up to \<open>now\<close>: every pending timer whose deadline has been reached runs, at
  its deadline, in the order in which the timers were set.
\<close>

definition elapse :: "'a hookDeps \<Rightarrow> nat \<Rightarrow> 'a hookState \<Rightarrow> 'a hookState" where
  "elapse dp now st =
     foldl (\<lambda>s tm. fireTimer dp (fst (snd tm)) tm s) st
       (filter (\<lambda>tm. fst (snd tm) \<le> now) (timers st))"

text \<open>A run of dataset changes: each is a render at its time, after the timers due by then.\<close>

fun runChanges :: "'a hookDeps \<Rightarrow> (nat \<times> 'a hookProps) list \<Rightarrow> 'a hookState \<Rightarrow> 'a hookState" where
  "runChanges dp [] st = st"
| "runChanges dp ((t, p) # cs) st = runChanges dp cs (renderHook dp t p (elapse dp t st))"

text \<open>
  The states the hook can reach: from the mount, any sequence of renders and of waiting.
\<close>

datatype 'a event = Change nat "'a hookProps" | Wait nat

fun runEvents :: "'a hookDeps \<Rightarrow> 'a event list \<Rightarrow> 'a hookState \<Rightarrow> 'a hookState" where
  "runEvents dp [] st = st"
| "runEvents dp (Change t p # es) st = runEvents dp es (renderHook dp t p (elapse dp t st))"
| "runEvents dp (Wait t # es) st = runEvents dp es (elapse dp t st)"

section \<open>The numeric fields of \<open>TableRow.js\<close> and \<open>PieChartDataPoints.js\<close>\<close>

text \<open>
  Reading \<open>values[i]\<close> beyond the end of an array gives \<open>undefined\<close>.  The display text
  of a committed value is empty for \<open>0\<close>, \<open>undefined\<close> and \<open>null\<close> and
  \<open>value.toString()\<close> otherwise; \<open>toString\<close>, \<open>JSON.stringify\<close> and \<open>Number\<close> are
  builtins and are parameters (\<open>Number\<close> returns \<open>None\<close> for \<open>NaN\<close>).
\<close>

definition valueAt :: "jsval list \<Rightarrow> nat \<Rightarrow> jsval" where
  "valueAt vs i = (if i < length vs then vs ! i else Undefined)"

definition displayOf :: "(rat \<Rightarrow> string) \<Rightarrow> jsval \<Rightarrow> string" where
  "displayOf toString v =
     (case v of Undefined \<Rightarrow> [] | Null \<Rightarrow> [] | Num n \<Rightarrow> if n = 0 then [] else toString n)"

subsection \<open>\<open>TableRow\<close>\<close>

text \<open>
  A field of the row is keyed by the text \<open>seriesIndex-rowIndex\<close>, which determines the
  two indices; the key is modelled as the pair.
\<close>

record tableRowState =
  displayValues :: "nat \<times> nat \<rightharpoonup> string"
  focusedInputs :: "(nat \<times> nat) set"
  prevSeriesRef :: "series list"
  isMountedRef :: bool

datatype rowCall = OnValueChange nat nat string


definition tableRowInitial :: "series list \<Rightarrow> tableRowState" where
  "tableRowInitial ss =
     \<lparr>displayValues = Map.empty, focusedInputs = {}, prevSeriesRef = ss, isMountedRef = False\<rparr>"

text \<open>The \<open>series.forEach\<close> loops that build the new display entries.\<close>

definition initialDisplayValues :: "(rat \<Rightarrow> string) \<Rightarrow> series list \<Rightarrow> nat \<Rightarrow> (nat \<times> nat \<rightharpoonup> string)" where
  "initialDisplayValues toString ss rowIndex =
     foldl (\<lambda>m seriesIndex.
              m((seriesIndex, rowIndex) \<mapsto> displayOf toString (valueAt (svalues (ss ! seriesIndex)) rowIndex)))
       Map.empty [0..<length ss]"

definition newDisplayValues ::
  "(rat \<Rightarrow> string) \<Rightarrow> (nat \<times> nat) set \<Rightarrow> series list \<Rightarrow> nat \<Rightarrow> (nat \<times> nat \<rightharpoonup> string)" where
  "newDisplayValues toString focused ss rowIndex =
     foldl (\<lambda>m seriesIndex.
              if (seriesIndex, rowIndex) \<in> focused then m
              else m((seriesIndex, rowIndex) \<mapsto>
                       displayOf toString (valueAt (svalues (ss ! seriesIndex)) rowIndex)))
       Map.empty [0..<length ss]"

definition tableRowMount :: "(rat \<Rightarrow> string) \<Rightarrow> series list \<Rightarrow> nat \<Rightarrow> tableRowState \<Rightarrow> tableRowState" where
  "tableRowMount toString ss rowIndex st =
     (if \<not> isMountedRef st then
        st\<lparr>displayValues := initialDisplayValues toString ss rowIndex, prevSeriesRef := ss,
           isMountedRef := True\<rparr>
      else st)"

text \<open>The effect on \<open>[series, rowIndex]\<close>.\<close>

definition tableRowSync ::
  "(series list \<Rightarrow> string) \<Rightarrow> (rat \<Rightarrow> string) \<Rightarrow> series list \<Rightarrow> nat \<Rightarrow> tableRowState \<Rightarrow> tableRowState" where
  "tableRowSync json toString ss rowIndex st =
     (if \<not> isMountedRef st then st
      else if json (prevSeriesRef st) \<noteq> json ss then
        st\<lparr>displayValues := displayValues st ++ newDisplayValues toString (focusedInputs st) ss rowIndex,
           prevSeriesRef := ss\<rparr>
      else st)"

definition rowHandleValueChange :: "nat \<Rightarrow> nat \<Rightarrow> string \<Rightarrow> tableRowState \<Rightarrow> tableRowState \<times> rowCall list" where
  "rowHandleValueChange rowIndex seriesIndex v st =
     (st\<lparr>displayValues := (displayValues st)((seriesIndex, rowIndex) \<mapsto> v)\<rparr>,
      if v \<noteq> [] then [OnValueChange seriesIndex rowIndex v] else [])"

definition rowHandleValueFocus :: "nat \<Rightarrow> nat \<Rightarrow> tableRowState \<Rightarrow> tableRowState" where
  "rowHandleValueFocus rowIndex seriesIndex st =
     st\<lparr>focusedInputs := insert (seriesIndex, rowIndex) (focusedInputs st)\<rparr>"

definition rowHandleValueBlur :: "nat \<Rightarrow> nat \<Rightarrow> tableRowState \<Rightarrow> tableRowState \<times> rowCall list" where
  "rowHandleValueBlur rowIndex seriesIndex st =
     (let st1 = st\<lparr>focusedInputs := focusedInputs st - {(seriesIndex, rowIndex)}\<rparr>
      in if displayValues st (seriesIndex, rowIndex) = Some [] \<or>
            displayValues st (seriesIndex, rowIndex) = None
         then (st1\<lparr>displayValues := (displayValues st1)((seriesIndex, rowIndex) \<mapsto> [])\<rparr>,
               [OnValueChange seriesIndex rowIndex ''0''])
         else (st1, []))"

subsection \<open>\<open>PieChartDataPoints\<close>\<close>

text \<open>
  The \<open>values\<close> array of the element may be sparse: assigning \<open>values[i] = v\<close> beyond the
  end extends the array and leaves holes before \<open>i\<close>.  A hole reads as \<open>undefined\<close> by
  index, \<open>forEach\<close> does not visit it, and the spread \<open>[...values]\<close> copies it as an
  \<open>undefined\<close> element.  A slot of the array is therefore a hole or an element.
\<close>

datatype slot = Hole | Item jsval

definition slotAt :: "slot list \<Rightarrow> nat \<Rightarrow> jsval" where
  "slotAt vs i =
     (if i < length vs then (case vs ! i of Hole \<Rightarrow> Undefined | Item v \<Rightarrow> v) else Undefined)"

definition spread :: "slot list \<Rightarrow> slot list" where
  "spread vs = map (\<lambda>sl. case sl of Hole \<Rightarrow> Item Undefined | Item v \<Rightarrow> Item v) vs"

definition arraySet :: "slot list \<Rightarrow> nat \<Rightarrow> jsval \<Rightarrow> slot list" where
  "arraySet vs i v =
     (if i < length vs then vs[i := Item v] else vs @ replicate (i - length vs) Hole @ [Item v])"

record pieElement = chartElement +
  elabels :: "string list option"
  evalues :: "slot list option"

record pieUpdates =
  uvalues :: "slot list"
  clearsSeries :: bool

record pieState =
  pieDisplayValues :: "nat \<rightharpoonup> string"
  pieFocusedInputs :: "nat set"
  prevValuesRef :: "slot list option"
  pieMountedRef :: bool

definition valuesOf :: "pieElement \<Rightarrow> slot list" where
  \<comment> \<open>\<open>selectedElement.values || []\<close>\<close>
  "valuesOf el = (case evalues el of None \<Rightarrow> [] | Some vs \<Rightarrow> vs)"

definition labelsOf :: "pieElement \<Rightarrow> string list" where
  \<comment> \<open>\<open>selectedElement.labels || []\<close>\<close>
  "labelsOf el = (case elabels el of None \<Rightarrow> [] | Some ls \<Rightarrow> ls)"


definition pieInitial :: "pieElement \<Rightarrow> pieState" where
  "pieInitial el =
     \<lparr>pieDisplayValues = Map.empty, pieFocusedInputs = {}, prevValuesRef = evalues el,
      pieMountedRef = False\<rparr>"

text \<open>The \<open>currentValues.forEach\<close> loops: only the elements of the array are visited.\<close>

definition pieInitialDisplayValues :: "(rat \<Rightarrow> string) \<Rightarrow> slot list \<Rightarrow> (nat \<rightharpoonup> string)" where
  "pieInitialDisplayValues toString vs =
     foldl (\<lambda>m index. case vs ! index of
                         Hole \<Rightarrow> m
                       | Item v \<Rightarrow> m(index \<mapsto> displayOf toString v))
       Map.empty [0..<length vs]"

definition pieNewDisplayValues :: "(rat \<Rightarrow> string) \<Rightarrow> nat set \<Rightarrow> slot list \<Rightarrow> (nat \<rightharpoonup> string)" where
  "pieNewDisplayValues toString focused vs =
     foldl (\<lambda>m index. case vs ! index of
                         Hole \<Rightarrow> m
                       | Item v \<Rightarrow> if index \<in> focused then m else m(index \<mapsto> displayOf toString v))
       Map.empty [0..<length vs]"

definition pieMount :: "(rat \<Rightarrow> string) \<Rightarrow> pieElement \<Rightarrow> pieState \<Rightarrow> pieState" where
  "pieMount toString el st =
     (if \<not> pieMountedRef st then
        st\<lparr>pieDisplayValues := pieInitialDisplayValues toString (valuesOf el),
           prevValuesRef := Some (valuesOf el), pieMountedRef := True\<rparr>
      else st)"

text \<open>The effect on \<open>[selectedElement.values]\<close>.\<close>

definition pieSync ::
  "(slot list \<Rightarrow> string) \<Rightarrow> (rat \<Rightarrow> string) \<Rightarrow> pieElement \<Rightarrow> pieState \<Rightarrow> pieState" where
  "pieSync json toString el st =
     (if \<not> pieMountedRef st then st
      else
        (let currentValues = valuesOf el;
             prevValues = (case prevValuesRef st of None \<Rightarrow> [] | Some vs \<Rightarrow> vs)
         in if json prevValues \<noteq> json currentValues then
              st\<lparr>pieDisplayValues :=
                   pieDisplayValues st ++ pieNewDisplayValues toString (pieFocusedInputs st) currentValues,
                 prevValuesRef := Some currentValues\<rparr>
            else st))"

text \<open>
  The fields the component renders, one per label, and the \<open>displayValue\<close> each of them
  shows: the cached string when there is one, else the display text of the committed value.
\<close>

definition pieFields :: "pieElement \<Rightarrow> nat list" where
  "pieFields el = [0..<length (labelsOf el)]"

definition pieFieldDisplay :: "(rat \<Rightarrow> string) \<Rightarrow> pieElement \<Rightarrow> pieState \<Rightarrow> nat \<Rightarrow> string" where
  "pieFieldDisplay toString el st index =
     (case pieDisplayValues st index of
        Some v \<Rightarrow> v
      | None \<Rightarrow> displayOf toString (slotAt (valuesOf el) index))"

definition finalValue :: "(string \<Rightarrow> rat option) \<Rightarrow> string \<Rightarrow> rat" where
  \<comment> \<open>\<open>Math.max(0, isNaN(num) ? 0 : num)\<close> with \<open>num = Number(value)\<close>\<close>
  "finalValue number v = max 0 (case number v of None \<Rightarrow> 0 | Some num \<Rightarrow> num)"

definition pieUpdatesFor :: "pieElement \<Rightarrow> slot list \<Rightarrow> pieUpdates" where
  "pieUpdatesFor el newValues = \<lparr>uvalues = newValues, clearsSeries = (chartType el = ''pie'')\<rparr>"

definition pieHandleValueChange ::
  "(string \<Rightarrow> rat option) \<Rightarrow> pieElement \<Rightarrow> nat \<Rightarrow> string \<Rightarrow> pieState
    \<Rightarrow> pieState \<times> (string \<times> pieUpdates) option" where
  "pieHandleValueChange number el index v st =
     (st\<lparr>pieDisplayValues := (pieDisplayValues st)(index \<mapsto> v)\<rparr>,
      if v \<noteq> [] then
        Some (elId el,
              pieUpdatesFor el (arraySet (spread (valuesOf el)) index (Num (finalValue number v))))
      else None)"

definition pieHandleValueFocus :: "nat \<Rightarrow> pieState \<Rightarrow> pieState" where
  "pieHandleValueFocus index st = st\<lparr>pieFocusedInputs := insert index (pieFocusedInputs st)\<rparr>"

definition pieHandleValueBlur ::
  "pieElement \<Rightarrow> nat \<Rightarrow> pieState \<Rightarrow> pieState \<times> (string \<times> pieUpdates) option" where
  "pieHandleValueBlur el index st =
     (let st1 = st\<lparr>pieFocusedInputs := pieFocusedInputs st - {index}\<rparr>
      in if pieDisplayValues st index = Some [] \<or> pieDisplayValues st index = None
         then (st1\<lparr>pieDisplayValues := (pieDisplayValues st1)(index \<mapsto> [])\<rparr>,
               Some (elId el, pieUpdatesFor el (arraySet (spread (valuesOf el)) index (Num 0))))
         else (st1, None))"

section \<open>Notions used to state the properties\<close>

subsection \<open>Compositor\<close>

text \<open>
  The contribution of each element that is present in the composite, in array order, and
  the two ways an element can be counted as missing: \<open>skipped\<close> is read off the code (an
  image whose load fails, or a type outside the five the compositor knows);
  \<open>resourceFails\<close> follows the spec's words (an element's image or chart resource failed).
\<close>

definition elementLayers :: "env \<Rightarrow> slide \<Rightarrow> node list list" where
  "elementLayers e s = filter (\<lambda>ns. ns \<noteq> []) (map (renderElement e) (elementsOf s))"

definition skipped :: "env \<Rightarrow> element \<Rightarrow> bool" where
  "skipped e el =
     (if etype el = ''image'' then \<not> imageLoads e (srcOf el)
      else etype el \<notin> {''text'', ''shape'', ''chart'', ''table''})"

definition resourceFails :: "env \<Rightarrow> element \<Rightarrow> bool" where
  "resourceFails e el =
     (if etype el = ''image'' then \<not> imageLoads e (srcOf el)
      else if etype el = ''chart'' then
        (case renderChartToImage e el of None \<Rightarrow> True | Some u \<Rightarrow> \<not> imageLoads e u)
      else False)"

subsection \<open>Live updates\<close>

text \<open>
  The fingerprint of a render's dataset; the state invariant that at most one timer is
  pending and that it is the one \<open>updateTimeoutRef\<close> names; the renders that can commit
  live (data present, not a pie chart, a callback supplied); and a run of changes in which
  each follows the previous one by less than 300 ms.
\<close>

definition fingerprint :: "'a hookDeps \<Rightarrow> 'a hookProps \<Rightarrow> string" where
  "fingerprint dp p = stringify dp (padded dp p)"

definition oneTimer :: "'a hookState \<Rightarrow> bool" where
  "oneTimer st =
     (case timers st of
        [] \<Rightarrow> True
      | [tm] \<Rightarrow> updateTimeoutRef st = Some (fst tm) \<and> liveCleanup st
      | _ \<Rightarrow> False)"

definition liveProps :: "'a hookProps \<Rightarrow> bool" where
  "liveProps p = (hasData p \<and> chartType (the (element p)) \<noteq> ''pie'' \<and> onSave p \<noteq> None)"

definition arms :: "'a hookDeps \<Rightarrow> 'a hookProps \<Rightarrow> 'a hookState \<Rightarrow> bool" where
  "arms dp p st =
     (hasData p \<and> chartType (the (element p)) \<noteq> ''pie'' \<and> initializedRef st \<and>
      Some (fingerprint dp p) \<noteq> lastSavedDataRef st)"

fun gapsOk :: "nat \<Rightarrow> (nat \<times> 'a hookProps) list \<Rightarrow> bool" where
  "gapsOk t [] = True"
| "gapsOk t ((t', p) # cs) = (t \<le> t' \<and> t' < t + 300 \<and> gapsOk t' cs)"

section \<open>Example inputs\<close>

subsection \<open>Slides\<close>

definition blankElement :: "string \<Rightarrow> element" where
  "blankElement ty =
     \<lparr>etype = ty, ex = None, ey = None, ewidth = None, eheight = None, rotation = None,
      content = None, fontSize = None, fontFamily = None, fontStyle = None, color = None,
      textAlign = None, shapeType = None, fillColor = None, borderColor = None,
      borderWidth = None, src = None, rows = None, cols = None\<rparr>"

definition demoEnv :: env where
  "demoEnv =
     \<lparr>imageLoads = (\<lambda>u. u \<noteq> ''bad.png''), renderChartToImage = (\<lambda>el. None),
      stageCreates = True, toDataURL = (\<lambda>layer. ''data:image/png'')\<rparr>"

definition demoSlide :: "string \<Rightarrow> string option \<Rightarrow> element list \<Rightarrow> slide" where
  "demoSlide i bg els =
     \<lparr>sid = i, backgroundImage = bg, backgroundGradient = None, backgroundColor = None,
      elements = Some els\<rparr>"

definition dom0 :: dom where
  "dom0 = \<lparr>bodyChildren = [], stages = [], fresh = 0\<rparr>"

definition badImage :: element where
  "badImage = (blankElement ''image'')\<lparr>src := Some ''bad.png''\<rparr>"

definition demoDeck :: "slide option list" where
  "demoDeck =
     [Some (demoSlide ''s1'' None []), Some (demoSlide ''s2'' None [blankElement ''text'']),
      Some (demoSlide ''s3'' (Some ''bad.png'') []), Some (demoSlide ''s4'' None [badImage]),
      Some (demoSlide ''s5'' (Some ''ok.png'') [])]"

definition demoDeckNull :: "slide option list" where
  "demoDeckNull =
     [Some (demoSlide ''s1'' None []), Some (demoSlide ''s2'' None [blankElement ''text'']),
      None, Some (demoSlide ''s4'' None [badImage]),
      Some (demoSlide ''s5'' (Some ''ok.png'') [])]"

subsection \<open>Chart options\<close>

definition demoChart :: chartElement where
  "demoChart = \<lparr>elId = ''chart-1'', chartType = ''bar''\<rparr>"

definition demoUpdates :: "string \<Rightarrow> string updates" where
  "demoUpdates v = \<lparr>payload = v, internal = None\<rparr>"

definition demoProps :: "'a chartOptionsProps" where
  "demoProps =
     \<lparr>selectedElement = Some demoChart, slides = [], currentSlideIndex = 0,
      pushSnapshot = Some (\<lambda>arg. None), updateSlideElement = (\<lambda>i u. None)\<rparr>"

definition demoArg :: snapshotArg where
  "demoArg = \<lparr>snapSlides = [], snapSelectedElement = demoChart, snapCurrentSlideIndex = 0\<rparr>"

subsection \<open>Live updates\<close>

text \<open>A rendering of the numbers that occur in the examples, and a serialiser built on it.\<close>

definition demoShow :: "rat \<Rightarrow> string" where
  "demoShow n =
     (if n = 1 then ''1'' else if n = 5 then ''5'' else if n = 12 then ''12''
      else if n = 123 then ''123'' else ''?'')"

definition demoJsonValues :: "jsval list \<Rightarrow> string" where
  "demoJsonValues vs =
     concat (map (\<lambda>v. case v of Undefined \<Rightarrow> ''null,'' | Null \<Rightarrow> ''null,''
                      | Num n \<Rightarrow> demoShow n @ '','') vs)"

definition demoDeps :: "(string list \<times> series list) hookDeps" where
  "demoDeps =
     \<lparr>padChartData = (\<lambda>ls ss ct el. \<lparr>payload = (ls, ss), internal = None\<rparr>),
      stringify = (\<lambda>u. concat (map (\<lambda>l. l @ '';'') (fst (payload u))) @
                        concat (map (\<lambda>s. sname s @ '':'' @ demoJsonValues (svalues s))
                                 (snd (payload u))))\<rparr>"

definition demoHookProps ::
  "((string list \<times> series list) updates \<Rightarrow> saveOptions \<Rightarrow> error option) option \<Rightarrow> rat
    \<Rightarrow> (string list \<times> series list) hookProps" where
  "demoHookProps handler n =
     \<lparr>isOpen = True, element = Some demoChart, labels = [''Q1''],
      hseries = [\<lparr>sname = ''Sales'', svalues = [Num n]\<rparr>], onSave = handler\<rparr>"

definition demoSession ::
  "((string list \<times> series list) updates \<Rightarrow> saveOptions \<Rightarrow> error option) option
    \<Rightarrow> (string list \<times> series list) hookState" where
  "demoSession handler =
     renderHook demoDeps 0 (demoHookProps handler 5) (mountState (demoHookProps handler 5))"

definition okHandler ::
  "((string list \<times> series list) updates \<Rightarrow> saveOptions \<Rightarrow> error option) option" where
  "okHandler = Some (\<lambda>u options. fst (handleSaveData demoProps False u options))"

definition failingProps :: "'a chartOptionsProps" where
  "failingProps =
     \<lparr>selectedElement = Some demoChart, slides = [], currentSlideIndex = 0,
      pushSnapshot = Some (\<lambda>arg. Some (Thrown ''history unavailable'')),
      updateSlideElement = (\<lambda>i u. Some (Thrown ''update failed''))\<rparr>"

definition failingHandler ::
  "((string list \<times> series list) updates \<Rightarrow> saveOptions \<Rightarrow> error option) option" where
  "failingHandler = Some (\<lambda>u options. fst (handleSaveData failingProps False u options))"

definition demoTimer :: "nat \<times> nat \<times> (string list \<times> series list) hookProps" where
  "demoTimer = (1, 1300, demoHookProps failingHandler 12)"

definition demoPending :: "(string list \<times> series list) hookState" where
  "demoPending =
     renderHook demoDeps 1000 (demoHookProps failingHandler 12) (demoSession failingHandler)"

subsection \<open>Numeric fields\<close>

definition demoJson :: "series list \<Rightarrow> string" where
  "demoJson ss = concat (map (\<lambda>s. sname s @ '':'' @ demoJsonValues (svalues s)) ss)"

definition demoNumber :: "string \<Rightarrow> rat option" where
  "demoNumber s =
     (if s = ''12'' then Some 12 else if s = ''5'' then Some 5
      else if s = ''-5'' then Some (- 5) else None)"

definition demoSeries :: "rat \<Rightarrow> rat \<Rightarrow> series list" where
  "demoSeries a b =
     [\<lparr>sname = ''Sales'', svalues = [Num a]\<rparr>, \<lparr>sname = ''Costs'', svalues = [Num b]\<rparr>]"

definition demoRow :: tableRowState where
  "demoRow =
     fst (rowHandleValueChange 0 0 []
       (rowHandleValueFocus 0 0
         (tableRowMount demoShow (demoSeries 5 1) 0 (tableRowInitial (demoSeries 5 1)))))"

definition demoJsonSlots :: "slot list \<Rightarrow> string" where
  "demoJsonSlots vs =
     concat (map (\<lambda>sl. case sl of Hole \<Rightarrow> ''null,'' | Item Undefined \<Rightarrow> ''null,''
                       | Item Null \<Rightarrow> ''null,'' | Item (Num n) \<Rightarrow> demoShow n @ '','') vs)"

definition demoPie :: "rat \<Rightarrow> rat \<Rightarrow> pieElement" where
  "demoPie a b =
     \<lparr>elId = ''pie-1'', chartType = ''pie'', elabels = Some [''A'', ''B''],
      evalues = Some [Item (Num a), Item (Num b)]\<rparr>"

definition demoPieState :: pieState where
  "demoPieState =
     fst (pieHandleValueChange demoNumber (demoPie 5 1) 0 []
       (pieHandleValueFocus 0 (pieMount demoShow (demoPie 5 1) (pieInitial (demoPie 5 1)))))"

text \<open>
  A pie element with three labels and no values yet.  The user types 12 into the third
  field and leaves it, which commits the sparse array \<open>[, , 12]\<close>; then types 5 into the
  first field and leaves it, which commits \<open>[5, undefined, 12]\<close>.  Each state below is
  the component's state after the effect has seen the committed element.
\<close>

definition pieBare :: pieElement where
  "pieBare =
     \<lparr>elId = ''pie-1'', chartType = ''pie'', elabels = Some [''A'', ''B'', ''C''],
      evalues = None\<rparr>"

definition pieSparse :: pieElement where
  "pieSparse = pieBare\<lparr>evalues := Some [Hole, Hole, Item (Num 12)]\<rparr>"

definition pieFilled :: pieElement where
  "pieFilled = pieBare\<lparr>evalues := Some [Item (Num 5), Item Undefined, Item (Num 12)]\<rparr>"

definition pieAfterThird :: pieState where
  "pieAfterThird =
     fst (pieHandleValueBlur pieSparse 2
       (pieSync demoJsonSlots demoShow pieSparse
         (fst (pieHandleValueChange demoNumber pieBare 2 ''12''
           (pieHandleValueFocus 2 (pieMount demoShow pieBare (pieInitial pieBare)))))))"

definition pieAfterFirst :: pieState where
  "pieAfterFirst =
     fst (pieHandleValueBlur pieFilled 0
       (pieSync demoJsonSlots demoShow pieFilled
         (fst (pieHandleValueChange demoNumber pieSparse 0 ''5''
           (pieHandleValueFocus 0 pieAfterThird)))))"

section \<open>Properties of the compositor\<close>

lemma renderElements_append:
  "renderElements e els layer = layer @ concat (map (renderElement e) els)"
  by (induction els arbitrary: layer) simp_all

lemma concat_filter_nonempty: "concat (filter (\<lambda>ns. ns \<noteq> []) xss) = concat xss"
  by (induction xss) simp_all

lemma renderElement_empty_iff: "renderElement e el = [] \<longleftrightarrow> skipped e el"
  by (auto simp: renderElement_def skipped_def renderText_def renderShape_def renderImage_def
      renderChart_def renderTable_def Let_def split: option.splits)

lemma filter_map_layers:
  "filter (\<lambda>ns. ns \<noteq> []) (map (renderElement e) els) =
   map (renderElement e) (filter (\<lambda>el. \<not> skipped e el) els)"
  by (induction els) (simp_all add: renderElement_empty_iff)

lemma length_filter_not: "length (filter (\<lambda>x. \<not> P x) xs) = length xs - length (filter P xs)"
  by (induction xs) (auto simp: Suc_diff_le)

lemma thumbnail_of_layers:
  "stageCreates e \<Longrightarrow> renderBackground e s = Inr bg \<Longrightarrow>
   fst (generateSlideThumbnail e s d) = Inr (toDataURL e (bg @ concat (elementLayers e s)))"
  by (simp add: generateSlideThumbnail_def Let_def elementLayers_def renderElements_append
      concat_filter_nonempty)

lemma thumbnail_result_dom_indep:
  "fst (generateSlideThumbnail e s d) = fst (generateSlideThumbnail e s d')"
  by (simp add: generateSlideThumbnail_def Let_def split: sum.splits)

lemma thumbnailLoop_result:
  "fst (thumbnailLoop e (map Some ss) acc d) =
   Inr (acc @ concat (map (\<lambda>s. case fst (generateSlideThumbnail e s d0) of
                       Inl err \<Rightarrow> [] | Inr t \<Rightarrow> [(sid s, t)]) ss))"
proof (induction ss arbitrary: acc d)
  case Nil
  then show ?case by simp
next
  case (Cons s ss)
  obtain r d' where g: "generateSlideThumbnail e s d = (r, d')"
    by (cases "generateSlideThumbnail e s d")
  have r: "fst (generateSlideThumbnail e s d0) = r"
    using g thumbnail_result_dom_indep[of e s d0 d] by simp
  show ?case
    by (cases r) (simp_all add: generateSlideThumbnailEntry_def g r Cons.IH)
qed

lemma length_concat_cases:
  "length (concat (map (\<lambda>s. case f s of Inl err \<Rightarrow> [] | Inr t \<Rightarrow> [g s t]) ss)) =
   length (filter (\<lambda>s. \<not> isl (f s)) ss)"
  by (induction ss) (auto split: sum.splits)

lemma thumbnail_success_releases:
  assumes "fst (generateSlideThumbnail e s d) = Inr t"
    "fresh d \<notin> set (bodyChildren d)" "fresh d \<notin> set (stages d)"
  shows "bodyChildren (snd (generateSlideThumbnail e s d)) = bodyChildren d \<and>
         stages (snd (generateSlideThumbnail e s d)) = stages d"
  using assms
  by (auto simp: generateSlideThumbnail_def Let_def remove1_append split: sum.splits if_splits)

lemma thumbnail_failure_leaks:
  assumes "fst (generateSlideThumbnail e s d) = Inl err"
  shows "fresh d \<in> set (bodyChildren (snd (generateSlideThumbnail e s d)))"
  using assms
  by (auto simp: generateSlideThumbnail_def Let_def split: sum.splits if_splits)

text \<open>
  Claim C3 requires the rendering surface and its off-screen container to be released on
  every exit path.  \<open>stage.destroy()\<close> and \<open>removeChild\<close> stand only at the end of the
  \<open>try\<close> block, so they run on the successful path (lemma \<open>thumbnail_success_releases\<close>)
  and not when the render rejects (lemma \<open>thumbnail_failure_leaks\<close>).  Evaluating the
  compositor on a slide whose background image fails to load: the promise rejects, and
  afterwards the container is still a child of \<open>document.body\<close> and the stage is still
  alive.
\<close>

theorem failed_background_leaks_surface:
  "generateSlideThumbnail demoEnv (demoSlide ''s3'' (Some ''bad.png'') []) dom0 =
     (Inl (LoadError ''bad.png''), \<lparr>bodyChildren = [0], stages = [0], fresh = 1\<rparr>)"
  by (simp add: generateSlideThumbnail_def Let_def demoEnv_def demoSlide_def dom0_def
      renderBackground_def truthy_str_def)

text \<open>
  Claim C4, as stated, fails: with \<open>N\<close> elements of which \<open>k\<close> fail to resolve their
  resources the composite need not contain \<open>N - k\<close> element layers.  A slide whose only
  element is a chart whose rasteriser rejects has \<open>N = 1\<close> and \<open>k = 1\<close>, and its composite
  contains one element layer, the placeholder rectangle.
\<close>

theorem failed_chart_still_layer:
  "length (elementLayers demoEnv (demoSlide ''s'' None [blankElement ''chart''])) \<noteq>
   length (elementsOf (demoSlide ''s'' None [blankElement ''chart''])) -
   length (filter (resourceFails demoEnv) (elementsOf (demoSlide ''s'' None [blankElement ''chart''])))"
  by (simp add: elementLayers_def elementsOf_def demoSlide_def resourceFails_def demoEnv_def
      blankElement_def renderElement_def renderChart_def)

text \<open>
  Claim C4, amended: when the stage is created and the background is painted, the
  composite is the background followed by the contributions of the elements in the order
  of the element array (each element is awaited before the next one starts).  An element
  contributes nothing exactly when it is an image whose load fails or its type is not one
  of text, shape, image, chart and table; so the number of element layers is \<open>N\<close> minus
  the number of such elements.  A chart whose resource fails contributes its placeholder.
\<close>

theorem composite_layers_in_order:
  assumes "stageCreates e" "renderBackground e s = Inr bg"
  shows "fst (generateSlideThumbnail e s d) = Inr (toDataURL e (bg @ concat (elementLayers e s))) \<and>
         elementLayers e s = map (renderElement e) (filter (\<lambda>el. \<not> skipped e el) (elementsOf s)) \<and>
         length (elementLayers e s) =
           length (elementsOf s) - length (filter (skipped e) (elementsOf s)) \<and>
         (\<forall>el \<in> set (elementsOf s). etype el = ''chart'' \<and> resourceFails e el \<longrightarrow>
            renderElement e el = [chartPlaceholder el])"
proof -
  have a: "fst (generateSlideThumbnail e s d) = Inr (toDataURL e (bg @ concat (elementLayers e s)))"
    using assms by (rule thumbnail_of_layers)
  have b: "elementLayers e s = map (renderElement e) (filter (\<lambda>el. \<not> skipped e el) (elementsOf s))"
    by (simp add: elementLayers_def filter_map_layers)
  have c: "length (elementLayers e s) =
           length (elementsOf s) - length (filter (skipped e) (elementsOf s))"
    by (simp add: b length_filter_not)
  have d: "\<forall>el \<in> set (elementsOf s). etype el = ''chart'' \<and> resourceFails e el \<longrightarrow>
            renderElement e el = [chartPlaceholder el]"
    by (auto simp: resourceFails_def renderElement_def renderChart_def split: option.splits)
  from a b c d show ?thesis by blast
qed

text \<open>
  Witness for claim C4 (amended): a text element, an image that fails to load and a chart
  whose rasteriser rejects give two element layers, the text and the placeholder.
\<close>

theorem composite_layers_in_order_witness:
  "fst (generateSlideThumbnail demoEnv
          (demoSlide ''s'' None [blankElement ''text'', badImage, blankElement ''chart'']) dom0) =
     Inr ''data:image/png'' \<and>
   elementLayers demoEnv (demoSlide ''s'' None [blankElement ''text'', badImage, blankElement ''chart'']) =
     [renderText (blankElement ''text''), [chartPlaceholder (blankElement ''chart'')]] \<and>
   length (elementLayers demoEnv
      (demoSlide ''s'' None [blankElement ''text'', badImage, blankElement ''chart''])) = 3 - 1"
proof -
  let ?s = "demoSlide ''s'' None [blankElement ''text'', badImage, blankElement ''chart'']"
  have h1: "stageCreates demoEnv" by (simp add: demoEnv_def)
  have h2: "renderBackground demoEnv ?s = Inr [KRect 0 0 1024 576 (Solid ''#ffffff'') [] 0 0 0]"
    by (simp add: renderBackground_def demoSlide_def truthy_str_def)
  show ?thesis
    using composite_layers_in_order[OF h1 h2, of dom0]
    by (simp add: demoEnv_def demoSlide_def elementsOf_def skipped_def badImage_def
        blankElement_def srcOf_def renderElement_def renderChart_def)
qed

text \<open>
  For a list of slide objects (no \<open>null\<close> or \<open>undefined\<close> entry) the batch isolates the
  failures: it returns, in input order, one pair for each slide whose render resolved and
  none for a slide whose render rejected.
\<close>

lemma batch_of_slide_objects:
  "fst (generateAllSlideThumbnails e (map Some ss) d) =
     Inr (concat (map (\<lambda>s. case fst (generateSlideThumbnail e s d0) of
                            Inl err \<Rightarrow> [] | Inr t \<Rightarrow> [(sid s, t)]) ss))"
  using thumbnailLoop_result[of e ss "[]" d d0] by (simp add: generateAllSlideThumbnails_def)

lemma batch_of_slide_objects_count:
  "\<exists>thumbnails. fst (generateAllSlideThumbnails e (map Some ss) d) = Inr thumbnails \<and>
      length thumbnails = length (filter (\<lambda>s. \<not> isl (fst (generateSlideThumbnail e s d0))) ss)"
  by (simp add: batch_of_slide_objects[of e ss d d0] length_concat_cases)

text \<open>
  Claim C5 requires that the failure of one slide never makes the batch function raise
  and never stops the processing of the slides after it; the loop's own comment says
  "Continue with other slides even if one fails".  The code does so for a slide object
  whose render rejects: a deck of five slides whose third slide has a background image
  that fails to load yields the four other thumbnails.  It does not for a malformed entry
  that is \<open>null\<close> or \<open>undefined\<close>: the render rejects, the \<open>catch\<close> block itself throws while
  it builds its log message from \<open>slide.id\<close>, the batch promise rejects, and the fourth
  and fifth slides are never rendered.
\<close>

theorem null_slide_rejects_batch:
  "fst (generateAllSlideThumbnails demoEnv demoDeck dom0) =
     Inr [(''s1'', ''data:image/png''), (''s2'', ''data:image/png''),
          (''s4'', ''data:image/png''), (''s5'', ''data:image/png'')] \<and>
   generateAllSlideThumbnails demoEnv demoDeckNull dom0 =
     (Inl (TypeError ''id''), \<lparr>bodyChildren = [2], stages = [2], fresh = 3\<rparr>)"
  by (simp add: generateAllSlideThumbnails_def demoDeck_def demoDeckNull_def demoEnv_def
      demoSlide_def dom0_def generateSlideThumbnailEntry_def generateSlideThumbnail_def Let_def
      renderBackground_def truthy_str_def)

text \<open>
  Claim C10: when the background image reference of a slide fails to load, the compositor
  call rejects and the batch produces no thumbnail for the slide; an image element whose
  load fails is only skipped, and a render whose stage and background succeed resolves.
\<close>

theorem background_image_failure_rejects:
  assumes "truthy_str (backgroundImage s)" "\<not> imageLoads e (the (backgroundImage s))"
  shows "fst (generateSlideThumbnail e s d) =
           Inl (if stageCreates e then LoadError (the (backgroundImage s)) else StageError) \<and>
         fst (generateAllSlideThumbnails e [Some s] d) = Inr [] \<and>
         (\<forall>el. etype el = ''image'' \<and> \<not> imageLoads e (srcOf el) \<longrightarrow> renderElement e el = []) \<and>
         (\<forall>s' bg. stageCreates e \<and> renderBackground e s' = Inr bg \<longrightarrow>
            \<not> isl (fst (generateSlideThumbnail e s' d)))"
proof -
  have a: "fst (generateSlideThumbnail e s d) =
           Inl (if stageCreates e then LoadError (the (backgroundImage s)) else StageError)"
    using assms by (simp add: generateSlideThumbnail_def Let_def renderBackground_def)
  have b: "fst (generateAllSlideThumbnails e [Some s] d) = Inr []"
    using a by (cases "generateSlideThumbnail e s d")
      (auto simp: generateAllSlideThumbnails_def generateSlideThumbnailEntry_def
        split: sum.splits prod.splits)
  have c: "\<forall>el. etype el = ''image'' \<and> \<not> imageLoads e (srcOf el) \<longrightarrow> renderElement e el = []"
    by (simp add: renderElement_def renderImage_def)
  have d: "\<forall>s' bg. stageCreates e \<and> renderBackground e s' = Inr bg \<longrightarrow>
            \<not> isl (fst (generateSlideThumbnail e s' d))"
    by (auto simp: thumbnail_of_layers)
  from a b c d show ?thesis by blast
qed

text \<open>
  Witness for claim C10: the same failing image as background rejects the render, and as
  an element leaves a render that resolves.
\<close>

theorem background_image_failure_rejects_witness:
  "fst (generateSlideThumbnail demoEnv (demoSlide ''s3'' (Some ''bad.png'') [badImage]) dom0) =
     Inl (LoadError ''bad.png'') \<and>
   fst (generateAllSlideThumbnails demoEnv
          [Some (demoSlide ''s3'' (Some ''bad.png'') [badImage])] dom0) = Inr [] \<and>
   renderElement demoEnv badImage = [] \<and>
   fst (generateSlideThumbnail demoEnv (demoSlide ''s4'' None [badImage]) dom0) =
     Inr ''data:image/png''"
proof -
  let ?s = "demoSlide ''s3'' (Some ''bad.png'') [badImage]"
  have h1: "truthy_str (backgroundImage ?s)" by (simp add: demoSlide_def truthy_str_def)
  have h2: "\<not> imageLoads demoEnv (the (backgroundImage ?s))"
    by (simp add: demoSlide_def demoEnv_def)
  note inst = background_image_failure_rejects[OF h1 h2, of dom0]
  have a: "fst (generateSlideThumbnail demoEnv ?s dom0) = Inl (LoadError ''bad.png'')"
    using inst[THEN conjunct1] by (simp add: demoEnv_def demoSlide_def)
  have b: "fst (generateAllSlideThumbnails demoEnv [Some ?s] dom0) = Inr []"
    using inst[THEN conjunct2, THEN conjunct1] .
  have c: "renderElement demoEnv badImage = []"
    using inst[THEN conjunct2, THEN conjunct2, THEN conjunct1]
    by (simp add: badImage_def blankElement_def srcOf_def demoEnv_def)
  have d: "fst (generateSlideThumbnail demoEnv (demoSlide ''s4'' None [badImage]) dom0) =
     Inr ''data:image/png''"
    by (simp add: generateSlideThumbnail_def Let_def renderBackground_def demoSlide_def
        truthy_str_def demoEnv_def)
  from a b c d show ?thesis by blast
qed

section \<open>Properties of the save handler\<close>

lemma snapshotRequests_append:
  "snapshotRequests (xs @ ys) = snapshotRequests xs + snapshotRequests ys"
  by (simp add: snapshotRequests_def)

lemma handleSaveData_live:
  assumes "selectedElement p = Some el" "pushSnapshot p = Some f"
  shows "fst (snd (handleSaveData p r u liveOpt)) = True"
    and "snapshotRequests (snd (snd (handleSaveData p r u liveOpt))) = 1"
  using assms
  by (simp_all add: handleSaveData_def isLiveUpdate_def liveOpt_def Let_def snapshotRequests_def
      updateSlideElementSnapshots_def split: option.splits)

lemma handleSaveData_save:
  assumes "selectedElement p = Some el" "internal u = None"
  shows "snapshotRequests (snd (snd (handleSaveData p r u saveOpt))) = (if r then 0 else 1)"
  using assms
  by (simp add: handleSaveData_def isLiveUpdate_def saveOpt_def Let_def snapshotRequests_def
      updateSlideElementSnapshots_def split: option.splits)

lemma runSaves_append: "runSaves p (xs @ ys) st = runSaves p ys (runSaves p xs st)"
  by (induction xs arbitrary: st) (auto split: prod.splits)

lemma runSaves_live:
  assumes "selectedElement p = Some el" "pushSnapshot p = Some f"
  shows "snapshotRequests (callLog (runSaves p (map (\<lambda>u. (u, liveOpt)) us) st)) =
           snapshotRequests (callLog st) + length us \<and>
         hasLiveSnapshot (runSaves p (map (\<lambda>u. (u, liveOpt)) us) st) =
           (us \<noteq> [] \<or> hasLiveSnapshot st)"
proof (induction us arbitrary: st)
  case Nil
  then show ?case by simp
next
  case (Cons u us)
  obtain err flag made where h: "handleSaveData p (hasLiveSnapshot st) u liveOpt = (err, flag, made)"
    by (cases "handleSaveData p (hasLiveSnapshot st) u liveOpt")
  have f: "flag = True" and m: "snapshotRequests made = 1"
    using handleSaveData_live[OF assms, of "hasLiveSnapshot st" u] h by simp_all
  show ?case
    by (simp add: h Cons.IH f m snapshotRequests_append)
qed

text \<open>
  Claim C1, as stated, fails: a burst of two debounced live commits on one element makes
  two calls of \<open>pushSnapshot\<close>, not one.  The live branch of \<open>handleSaveData\<close> calls
  \<open>pushSnapshot\<close> without looking at \<open>hasLiveSnapshotRef\<close>; its comment says that each
  debounced update creates a separate undo point.
\<close>

theorem two_live_commits_two_snapshots:
  "snapshotRequests (callLog (runSaves demoProps
      [(demoUpdates ''1'', liveOpt), (demoUpdates ''12'', liveOpt)] sessionStart)) = 2"
  by (simp add: demoProps_def demoUpdates_def liveOpt_def sessionStart_def handleSaveData_def
      isLiveUpdate_def Let_def snapshotRequests_def updateSlideElementSnapshots_def)

text \<open>
  Claim C1, amended: with an element selected and \<open>pushSnapshot\<close> supplied, every live
  commit makes exactly one call of \<open>pushSnapshot\<close>, immediately before its document
  update (followed only by the log entry when the call throws), so a burst of \<open>n\<close> live
  commits requests \<open>n\<close> snapshots.  An explicit save after live edits in the same burst
  requests no further snapshot, and an explicit save with no prior live edits requests
  exactly one, through \<open>updateSlideElement\<close> called without the \<open>__internal\<close> marker.
\<close>

theorem snapshot_per_live_commit:
  assumes "selectedElement p = Some el" "pushSnapshot p = Some f" "internal u' = None"
  shows "snapshotRequests (callLog (runSaves p (map (\<lambda>u. (u, liveOpt)) us) sessionStart)) = length us \<and>
         snapshotRequests
           (callLog (runSaves p (map (\<lambda>u. (u, liveOpt)) us @ [(u', saveOpt)]) sessionStart)) =
           (if us = [] then 1 else length us) \<and>
         snd (snd (handleSaveData p r u liveOpt)) =
           (let arg = \<lparr>snapSlides = slides p, snapSelectedElement = el,
                       snapCurrentSlideIndex = currentSlideIndex p\<rparr>
            in PushSnapshot arg #
               (case f arg of None \<Rightarrow> []
                | Some err \<Rightarrow> [ConsoleError ''Failed to snapshot chart edit:'' err]) @
               [UpdateSlideElement (elId el) (u\<lparr>internal := Some ''chart-live''\<rparr>)])"
proof -
  note live = runSaves_live[OF assms(1,2), of us sessionStart]
  have a: "snapshotRequests (callLog (runSaves p (map (\<lambda>u. (u, liveOpt)) us) sessionStart)) = length us"
    using live by (simp add: sessionStart_def snapshotRequests_def)
  have fl: "hasLiveSnapshot (runSaves p (map (\<lambda>u. (u, liveOpt)) us) sessionStart) = (us \<noteq> [])"
    using live by (simp add: sessionStart_def)
  let ?st = "runSaves p (map (\<lambda>u. (u, liveOpt)) us) sessionStart"
  obtain err flag made where h: "handleSaveData p (hasLiveSnapshot ?st) u' saveOpt = (err, flag, made)"
    by (cases "handleSaveData p (hasLiveSnapshot ?st) u' saveOpt")
  have m: "snapshotRequests made = (if us = [] then 1 else 0)"
    using handleSaveData_save[OF assms(1,3), of "hasLiveSnapshot ?st"] h fl by simp
  have b: "snapshotRequests
           (callLog (runSaves p (map (\<lambda>u. (u, liveOpt)) us @ [(u', saveOpt)]) sessionStart)) =
           (if us = [] then 1 else length us)"
    by (simp add: runSaves_append h snapshotRequests_append a m)
  have c: "snd (snd (handleSaveData p r u liveOpt)) =
           (let arg = \<lparr>snapSlides = slides p, snapSelectedElement = el,
                       snapCurrentSlideIndex = currentSlideIndex p\<rparr>
            in PushSnapshot arg #
               (case f arg of None \<Rightarrow> []
                | Some err \<Rightarrow> [ConsoleError ''Failed to snapshot chart edit:'' err]) @
               [UpdateSlideElement (elId el) (u\<lparr>internal := Some ''chart-live''\<rparr>)])"
    using assms(1,2)
    by (simp add: handleSaveData_def isLiveUpdate_def liveOpt_def Let_def split: option.splits)
  from a b c show ?thesis by blast
qed

text \<open>
  Witness for claim C1 (amended): three live commits request three snapshots, a save
  after them adds none, and a save in a fresh session requests one.
\<close>

theorem snapshot_per_live_commit_witness:
  "snapshotRequests (callLog (runSaves demoProps
      (map (\<lambda>u. (u, liveOpt)) [demoUpdates ''1'', demoUpdates ''12'', demoUpdates ''123''])
      sessionStart)) = 3 \<and>
   snapshotRequests (callLog (runSaves demoProps
      (map (\<lambda>u. (u, liveOpt)) [demoUpdates ''1'', demoUpdates ''12'', demoUpdates ''123''] @
       [(demoUpdates ''123'', saveOpt)]) sessionStart)) = 3 \<and>
   snapshotRequests (callLog (runSaves demoProps
      (map (\<lambda>u. (u, liveOpt)) [] @ [(demoUpdates ''5'', saveOpt)]) sessionStart)) = 1 \<and>
   snd (snd (handleSaveData demoProps False (demoUpdates ''1'') liveOpt)) =
     [PushSnapshot demoArg,
      UpdateSlideElement ''chart-1'' \<lparr>payload = ''1'', internal = Some ''chart-live''\<rparr>]"
proof -
  have h1: "selectedElement demoProps = Some demoChart" by (simp add: demoProps_def)
  have h2: "pushSnapshot demoProps = Some (\<lambda>arg. None)" by (simp add: demoProps_def)
  have h3: "internal (demoUpdates ''123'') = None" by (simp add: demoUpdates_def)
  have h4: "internal (demoUpdates ''5'') = None" by (simp add: demoUpdates_def)
  show ?thesis
    using snapshot_per_live_commit[OF h1 h2 h3,
        of "[demoUpdates ''1'', demoUpdates ''12'', demoUpdates ''123'']" False "demoUpdates ''1''"]
      snapshot_per_live_commit[OF h1 h2 h4, of "[]" False "demoUpdates ''1''"]
    by (simp add: demoProps_def demoArg_def demoChart_def demoUpdates_def Let_def)
qed

section \<open>Properties of the live updates\<close>

lemma demoSession_fields:
  "timers (demoSession h) = []"
  "oneTimer (demoSession h)"
  "initializedRef (demoSession h)"
  "prevIsOpen (demoSession h) = Some True"
  "saveCalls (demoSession h) = []"
  "lastSavedDataRef (demoSession h) = Some ''Q1;Sales:5,''"
  "onSaveRef (demoSession h) = h"
  by (simp_all add: demoSession_def renderHook_def Let_def mountState_def demoHookProps_def
      resetEffect_def initEffect_def liveEffect_def hasData_def demoChart_def demoDeps_def
      padded_def oneTimer_def demoJsonValues_def demoShow_def)

lemma demo_fingerprint:
  "fingerprint demoDeps (demoHookProps h n) = ''Q1;Sales:'' @ demoShow n @ '',''"
  by (simp add: fingerprint_def demoDeps_def padded_def demoHookProps_def demoJsonValues_def)

lemma oneTimer_mount: "oneTimer (mountState p)"
  by (simp add: oneTimer_def mountState_def)

lemma cleanup_fields:
  "oneTimer st \<Longrightarrow> timers (if liveCleanup st then clearCurrent st else st) = []"
  "lastSavedDataRef (if liveCleanup st then clearCurrent st else st) = lastSavedDataRef st"
  "initializedRef (if liveCleanup st then clearCurrent st else st) = initializedRef st"
  "saveCalls (if liveCleanup st then clearCurrent st else st) = saveCalls st"
  "nextTimer (if liveCleanup st then clearCurrent st else st) = nextTimer st"
  by (auto simp: oneTimer_def clearCurrent_def clearTimeout_def split: list.splits option.splits)

lemma resetEffect_fields:
  "timers st = [] \<Longrightarrow> timers (resetEffect p st) = []"
  "lastSavedDataRef (resetEffect p st) = None"
  "initializedRef (resetEffect p st) = False"
  "saveCalls (resetEffect p st) = saveCalls st"
  "onSaveRef (resetEffect p st) = onSaveRef st"
  "nextTimer (resetEffect p st) = nextTimer st"
  by (auto simp: resetEffect_def clearTimeout_def Let_def split: option.splits)

lemma initEffect_fields:
  "timers (initEffect dp p st) = timers st"
  "saveCalls (initEffect dp p st) = saveCalls st"
  "onSaveRef (initEffect dp p st) = onSaveRef st"
  "nextTimer (initEffect dp p st) = nextTimer st"
  "initializedRef (initEffect dp p st) = (hasData p \<or> initializedRef st)"
  "lastSavedDataRef (initEffect dp p st) =
     (if hasData p \<and> \<not> initializedRef st then Some (fingerprint dp p) else lastSavedDataRef st)"
  by (auto simp: initEffect_def fingerprint_def)

lemma liveEffect_fields:
  "lastSavedDataRef (liveEffect dp now p st) = lastSavedDataRef st"
  "saveCalls (liveEffect dp now p st) = saveCalls st"
  "onSaveRef (liveEffect dp now p st) = onSaveRef st"
  "initializedRef (liveEffect dp now p st) = initializedRef st"
  by (auto simp: liveEffect_def Let_def setTimeout300_def clearCurrent_def clearTimeout_def
      split: option.splits)

lemma liveEffect_timers:
  "timers st = [] \<Longrightarrow>
   timers (liveEffect dp now p st) = (if arms dp p st then [(nextTimer st, now + 300, p)] else [])"
  by (auto simp: liveEffect_def arms_def fingerprint_def Let_def setTimeout300_def clearCurrent_def
      clearTimeout_def split: option.splits)

lemma liveEffect_oneTimer:
  "timers st = [] \<Longrightarrow> oneTimer (liveEffect dp now p st)"
  by (auto simp: liveEffect_def oneTimer_def Let_def setTimeout300_def clearCurrent_def
      clearTimeout_def split: option.splits)


lemma renderHook_equal_no_timer:
  assumes "oneTimer st" "lastSavedDataRef st = Some (fingerprint dp p)"
  shows "timers (renderHook dp now p st) = []"
  using assms
  by (simp add: renderHook_def Let_def cleanup_fields resetEffect_fields initEffect_fields
      liveEffect_timers arms_def liveEffect_fields)

lemma renderHook_saveCalls: "saveCalls (renderHook dp now p st) = saveCalls st"
  by (simp add: renderHook_def Let_def cleanup_fields resetEffect_fields initEffect_fields
      liveEffect_fields)

lemma oneTimer_prevIsOpen: "oneTimer (st\<lparr>prevIsOpen := x\<rparr>) = oneTimer st"
  by (simp add: oneTimer_def split: list.splits)

lemma renderHook_oneTimer: "oneTimer st \<Longrightarrow> oneTimer (renderHook dp now p st)"
proof -
  assume a: "oneTimer st"
  let ?st3 = "initEffect dp p
      (if prevIsOpen st \<noteq> Some (isOpen p)
       then resetEffect p ((if liveCleanup st then clearCurrent st else st)\<lparr>onSaveRef := onSave p\<rparr>)
       else (if liveCleanup st then clearCurrent st else st)\<lparr>onSaveRef := onSave p\<rparr>)"
  have r: "renderHook dp now p st = (liveEffect dp now p ?st3)\<lparr>prevIsOpen := Some (isOpen p)\<rparr>"
    by (simp only: renderHook_def Let_def)
  have "timers ?st3 = []"
    using a by (simp add: initEffect_fields resetEffect_fields cleanup_fields)
  then have "oneTimer (liveEffect dp now p ?st3)" by (rule liveEffect_oneTimer)
  then show ?thesis
    by (simp only: r oneTimer_prevIsOpen)
qed

lemma renderHook_burst_step:
  assumes "oneTimer st" "initializedRef st" "prevIsOpen st = Some True" "liveProps p"
  shows "lastSavedDataRef (renderHook dp now p st) = lastSavedDataRef st"
    and "initializedRef (renderHook dp now p st)"
    and "prevIsOpen (renderHook dp now p st) = Some True"
    and "onSaveRef (renderHook dp now p st) = onSave p"
    and "timers (renderHook dp now p st) =
          (if Some (fingerprint dp p) \<noteq> lastSavedDataRef st
           then [(nextTimer st, now + 300, p)] else [])"
  using assms
  by (simp_all add: renderHook_def Let_def cleanup_fields resetEffect_fields initEffect_fields
      liveEffect_timers arms_def liveEffect_fields liveProps_def hasData_def)

lemma elapse_nothing_due:
  assumes "\<forall>tm \<in> set (timers st). now < fst (snd tm)"
  shows "elapse dp now st = st"
proof -
  have "filter (\<lambda>tm. fst (snd tm) \<le> now) (timers st) = []"
    using assms by (auto simp: filter_empty_conv)
  then show ?thesis by (simp add: elapse_def)
qed

lemma elapse_no_timer: "timers st = [] \<Longrightarrow> elapse dp now st = st"
  by (simp add: elapse_def)

lemma elapse_single_due:
  assumes "timers st = [(i, dl, p)]" "dl \<le> now" "onSaveRef st = Some f"
  shows "saveCalls (elapse dp now st) = saveCalls st @ [(dl, padded dp p, \<lparr>isLive = Some True\<rparr>)]"
  using assms
  by (simp add: elapse_def fireTimer_def Let_def clearTimeout_def split: option.splits)

text \<open>The state reached by a run of closely spaced changes.\<close>

lemma runChanges_burst:
  assumes "cs \<noteq> []" "gapsOk t0 cs" "\<forall>c \<in> set cs. liveProps (snd c)"
    "oneTimer st" "initializedRef st" "prevIsOpen st = Some True"
    "\<forall>tm \<in> set (timers st). fst (snd tm) = t0 + 300"
  shows "saveCalls (runChanges dp cs st) = saveCalls st \<and>
         onSaveRef (runChanges dp cs st) = onSave (snd (last cs)) \<and>
         map snd (timers (runChanges dp cs st)) =
           (if Some (fingerprint dp (snd (last cs))) \<noteq> lastSavedDataRef st
            then [(fst (last cs) + 300, snd (last cs))] else [])"
  using assms
proof (induction cs arbitrary: st t0)
  case Nil
  then show ?case by simp
next
  case (Cons c cs)
  obtain t p where c: "c = (t, p)" by (cases c)
  have gap: "t0 \<le> t" "t < t0 + 300" "gapsOk t cs" using Cons.prems(2) c by simp_all
  have lp: "liveProps p" using Cons.prems(3) c by simp
  have el: "elapse dp t st = st"
    using Cons.prems(7) gap(2) by (intro elapse_nothing_due) simp
  let ?st' = "renderHook dp t p st"
  note step = renderHook_burst_step[OF Cons.prems(4,5,6) lp, of dp t]
  have one': "oneTimer ?st'" using Cons.prems(4) by (rule renderHook_oneTimer)
  have calls': "saveCalls ?st' = saveCalls st" by (rule renderHook_saveCalls)
  have dl': "\<forall>tm \<in> set (timers ?st'). fst (snd tm) = t + 300"
    by (simp add: step(5))
  show ?case
  proof (cases "cs = []")
    case True
    then show ?thesis
      by (simp add: c el calls' step)
  next
    case False
    have "\<forall>c \<in> set cs. liveProps (snd c)" using Cons.prems(3) by simp
    from Cons.IH[OF False gap(3) this one' step(2) step(3) dl']
    show ?thesis
      using False by (simp add: c el calls' step(1))
  qed
qed

text \<open>
  Claim C6, amended: in an open, initialised session of a bar or line chart with no commit
  pending, a run of dataset changes in which each change follows the previous one by less
  than 300 ms, and whose last dataset differs in serialisation from the last-committed
  fingerprint, emits exactly one live commit; it fires 300 ms after the last change (and
  not before), and it carries the dataset of the last change.
\<close>

theorem debounce_one_commit:
  assumes "cs \<noteq> []" "gapsOk t0 cs" "\<forall>c \<in> set cs. liveProps (snd c)"
    "timers st = []" "initializedRef st" "prevIsOpen st = Some True"
    "Some (fingerprint dp (snd (last cs))) \<noteq> lastSavedDataRef st"
  shows "saveCalls (elapse dp tf (runChanges dp cs st)) =
         saveCalls st @
         (if fst (last cs) + 300 \<le> tf
          then [(fst (last cs) + 300, padded dp (snd (last cs)), liveOpt)] else [])"
proof -
  have one: "oneTimer st" using assms(4) by (simp add: oneTimer_def)
  have "\<forall>tm \<in> set (timers st). fst (snd tm) = t0 + 300" using assms(4) by simp
  from runChanges_burst[OF assms(1,2,3) one assms(5,6) this, of dp]
  have sc: "saveCalls (runChanges dp cs st) = saveCalls st"
    and os: "onSaveRef (runChanges dp cs st) = onSave (snd (last cs))"
    and tm: "map snd (timers (runChanges dp cs st)) = [(fst (last cs) + 300, snd (last cs))]"
    using assms(7) by simp_all
  obtain i where ti: "timers (runChanges dp cs st) = [(i, fst (last cs) + 300, snd (last cs))]"
    using tm by (cases "timers (runChanges dp cs st)") auto
  have "liveProps (snd (last cs))" using assms(1,3) by simp
  then obtain f where f: "onSaveRef (runChanges dp cs st) = Some f"
    using os by (auto simp: liveProps_def)
  show ?thesis
  proof (cases "fst (last cs) + 300 \<le> tf")
    case True
    then show ?thesis
      using elapse_single_due[OF ti True f, of dp] by (simp add: sc liveOpt_def)
  next
    case False
    then have "elapse dp tf (runChanges dp cs st) = runChanges dp cs st"
      by (intro elapse_nothing_due) (simp add: ti)
    then show ?thesis using False by (simp add: sc)
  qed
qed


lemma fireTimer_single:
  assumes "timers st = [tm]"
  shows "timers (fireTimer dp now tm st) = []"
    and "lastSavedDataRef (fireTimer dp now tm st) = Some (fingerprint dp (snd (snd tm)))"
    and "initializedRef (fireTimer dp now tm st) = initializedRef st"
    and "prevIsOpen (fireTimer dp now tm st) = prevIsOpen st"
    and "uncaught (fireTimer dp now tm st) =
           uncaught st @
           (case onSaveRef st of None \<Rightarrow> []
            | Some f \<Rightarrow> (case f (padded dp (snd (snd tm))) liveOpt of None \<Rightarrow> [] | Some err \<Rightarrow> [err]))"
    and "saveCalls (fireTimer dp now tm st) =
           saveCalls st @
           (case onSaveRef st of None \<Rightarrow> [] | Some f \<Rightarrow> [(now, padded dp (snd (snd tm)), liveOpt)])"
  using assms
  by (simp_all add: fireTimer_def Let_def clearTimeout_def fingerprint_def liveOpt_def
      split: option.splits)

lemma oneTimer_no_timer: "timers st = [] \<Longrightarrow> oneTimer st"
  by (simp add: oneTimer_def)

lemma oneTimer_elapse: "oneTimer st \<Longrightarrow> oneTimer (elapse dp now st)"
proof -
  assume a: "oneTimer st"
  show ?thesis
  proof (cases "timers st")
    case Nil
    then show ?thesis using a by (simp add: elapse_def)
  next
    case (Cons tm tms)
    then have t: "timers st = [tm]" using a by (cases tms) (simp_all add: oneTimer_def)
    show ?thesis
    proof (cases "fst (snd tm) \<le> now")
      case True
      then have "elapse dp now st = fireTimer dp (fst (snd tm)) tm st"
        by (simp add: elapse_def t)
      then show ?thesis using fireTimer_single(1)[OF t] by (simp add: oneTimer_no_timer)
    next
      case False
      then have "elapse dp now st = st" by (simp add: elapse_def t)
      then show ?thesis using a by simp
    qed
  qed
qed

lemma oneTimer_runChanges: "oneTimer st \<Longrightarrow> oneTimer (runChanges dp cs st)"
proof (induction cs arbitrary: st)
  case Nil
  then show ?case by simp
next
  case (Cons c cs)
  obtain t p where c: "c = (t, p)" by (cases c)
  show ?case
    using Cons.prems by (simp add: c Cons.IH renderHook_oneTimer oneTimer_elapse)
qed

lemma oneTimer_runEvents: "oneTimer st \<Longrightarrow> oneTimer (runEvents dp es st)"
proof (induction es arbitrary: st)
  case Nil
  then show ?case by simp
next
  case (Cons ev es)
  then show ?case
    by (cases ev) (simp_all add: renderHook_oneTimer oneTimer_elapse)
qed

text \<open>
  Claim C9: in every state the hook can reach, a render whose serialised dataset equals
  the last-committed fingerprint leaves no timer pending, so however long one waits
  afterwards the commit callback is not called (and, since \<open>pushSnapshot\<close> is only called
  from the commit callback, no snapshot is requested).
\<close>

theorem unchanged_dataset_no_commit:
  assumes "st = runEvents dp es (mountState p0)"
    "lastSavedDataRef st = Some (fingerprint dp p)"
  shows "timers (renderHook dp now p st) = [] \<and>
         saveCalls (elapse dp later (renderHook dp now p st)) = saveCalls st"
proof -
  have "oneTimer st"
    unfolding assms(1) using oneTimer_mount by (rule oneTimer_runEvents)
  then have t: "timers (renderHook dp now p st) = []"
    using assms(2) by (rule renderHook_equal_no_timer)
  then have "elapse dp later (renderHook dp now p st) = renderHook dp now p st"
    by (rule elapse_no_timer)
  then show ?thesis using t by (simp add: renderHook_saveCalls)
qed

text \<open>
  Witness for claim C9: after the first render of a session on the value 5, a render with
  the same dataset arms no timer and no commit follows.
\<close>

theorem unchanged_dataset_no_commit_witness:
  "timers (renderHook demoDeps 1000 (demoHookProps okHandler 5) (demoSession okHandler)) = [] \<and>
   saveCalls (elapse demoDeps 5000
     (renderHook demoDeps 1000 (demoHookProps okHandler 5) (demoSession okHandler))) = []"
proof -
  have h1: "demoSession okHandler =
      runEvents demoDeps [Change 0 (demoHookProps okHandler 5)] (mountState (demoHookProps okHandler 5))"
    by (simp add: demoSession_def elapse_def mountState_def)
  have h2: "lastSavedDataRef (demoSession okHandler) =
      Some (fingerprint demoDeps (demoHookProps okHandler 5))"
    by (simp add: demoSession_fields demo_fingerprint demoShow_def)
  show ?thesis
    using unchanged_dataset_no_commit[OF h1 h2, of 1000 5000] by (simp add: demoSession_fields)
qed

text \<open>
  Claim C6, as stated, fails: not every run of closely spaced changes emits exactly one
  live commit.  In a session whose committed value is 5, changing the value to 1 and,
  100 ms later, back to 5 emits no commit at all: the second render cancels the pending
  timer and finds the serialised dataset equal to the last-committed fingerprint.
\<close>

theorem change_and_revert_no_commit:
  "saveCalls (elapse demoDeps 5000
     (runChanges demoDeps
        [(1000, demoHookProps okHandler 1), (1100, demoHookProps okHandler 5)]
        (demoSession okHandler))) = []"
proof -
  let ?cs = "[(1000, demoHookProps okHandler 1), (1100, demoHookProps okHandler 5)]"
  have lp: "\<forall>c \<in> set ?cs. liveProps (snd c)"
    by (simp add: liveProps_def hasData_def demoHookProps_def demoChart_def okHandler_def)
  have tm: "\<forall>tm \<in> set (timers (demoSession okHandler)). fst (snd tm) = 1000 + 300"
    by (simp add: demoSession_fields)
  have "gapsOk 1000 ?cs" by simp
  from runChanges_burst[OF _ this lp demoSession_fields(2,3,4) tm, of demoDeps]
  have sc: "saveCalls (runChanges demoDeps ?cs (demoSession okHandler)) = []"
    and nt: "timers (runChanges demoDeps ?cs (demoSession okHandler)) = []"
    by (simp_all add: demoSession_fields demo_fingerprint demoShow_def)
  show ?thesis
    using elapse_no_timer[OF nt, of demoDeps 5000] sc by (simp del: runChanges.simps)
qed

text \<open>
  Witness for claim C6 (amended): typing 1, 12, 123 at 100 ms intervals yields one live
  commit, carrying 123, at 300 ms after the last keystroke and nothing before.
\<close>

theorem debounce_one_commit_witness:
  "saveCalls (elapse demoDeps 1500
     (runChanges demoDeps
        [(1000, demoHookProps okHandler 1), (1100, demoHookProps okHandler 12),
         (1200, demoHookProps okHandler 123)]
        (demoSession okHandler))) =
   [(1500, \<lparr>payload = ([''Q1''], [\<lparr>sname = ''Sales'', svalues = [Num 123]\<rparr>]), internal = None\<rparr>,
     liveOpt)] \<and>
   saveCalls (elapse demoDeps 1499
     (runChanges demoDeps
        [(1000, demoHookProps okHandler 1), (1100, demoHookProps okHandler 12),
         (1200, demoHookProps okHandler 123)]
        (demoSession okHandler))) = []"
proof -
  let ?cs = "[(1000, demoHookProps okHandler 1), (1100, demoHookProps okHandler 12),
         (1200, demoHookProps okHandler 123)]"
  have h1: "?cs \<noteq> []" by simp
  have h2: "gapsOk 1000 ?cs" by simp
  have h3: "\<forall>c \<in> set ?cs. liveProps (snd c)"
    by (simp add: liveProps_def hasData_def demoHookProps_def demoChart_def okHandler_def)
  have h8: "Some (fingerprint demoDeps (snd (last ?cs))) \<noteq> lastSavedDataRef (demoSession okHandler)"
    by (simp add: demoSession_fields demo_fingerprint demoShow_def)
  show ?thesis
    using debounce_one_commit[OF h1 h2 h3 demoSession_fields(1,3,4) h8, where tf=1500]
      debounce_one_commit[OF h1 h2 h3 demoSession_fields(1,3,4) h8, where tf=1499]
    by (simp add: demoSession_fields padded_def demoDeps_def demoHookProps_def demoChart_def
        del: runChanges.simps)
qed

lemma renderHook_after_fire:
  assumes "oneTimer st" "initializedRef st" "prevIsOpen st = Some True" "liveProps p"
  shows "map snd (timers (renderHook dp now p st)) =
          (if Some (fingerprint dp p) \<noteq> lastSavedDataRef st then [(now + 300, p)] else [])"
  using renderHook_burst_step(5)[OF assms, where dp=dp and now=now] by simp

text \<open>
  Claim C2, as stated, fails: the timer callback assigns the fingerprint before it calls
  the commit callback and catches nothing.  With a commit callback whose document update
  throws, the fingerprint has moved from the committed dataset (value 5) to the dataset of
  the failed commit (value 12), the error leaves the callback uncaught, and a following
  render of the same dataset arms no timer: the commit is not retried.
\<close>

theorem failed_commit_advances_fingerprint:
  "lastSavedDataRef (demoSession failingHandler) = Some ''Q1;Sales:5,'' \<and>
   lastSavedDataRef (elapse demoDeps 1300
      (renderHook demoDeps 1000 (demoHookProps failingHandler 12) (demoSession failingHandler))) =
     Some ''Q1;Sales:12,'' \<and>
   uncaught (elapse demoDeps 1300
      (renderHook demoDeps 1000 (demoHookProps failingHandler 12) (demoSession failingHandler))) =
     [Thrown ''update failed''] \<and>
   timers (renderHook demoDeps 2000 (demoHookProps failingHandler 12)
      (elapse demoDeps 1300
        (renderHook demoDeps 1000 (demoHookProps failingHandler 12) (demoSession failingHandler)))) = []"
proof -
  let ?p = "demoHookProps failingHandler 12"
  let ?st = "renderHook demoDeps 1000 ?p (demoSession failingHandler)"
  have lp: "liveProps ?p"
    by (simp add: liveProps_def hasData_def demoHookProps_def demoChart_def failingHandler_def)
  note step = renderHook_burst_step[OF demoSession_fields(2,3,4) lp, where dp=demoDeps and now=1000]
  have tm: "timers ?st = [(nextTimer (demoSession failingHandler), 1300, ?p)]"
    using step(5) by (simp add: demoSession_fields demo_fingerprint demoShow_def)
  let ?tm = "(nextTimer (demoSession failingHandler), 1300::nat, ?p)"
  have el: "elapse demoDeps 1300 ?st = fireTimer demoDeps 1300 ?tm ?st"
    by (simp add: elapse_def tm)
  have one: "oneTimer ?st" using demoSession_fields(2) by (rule renderHook_oneTimer)
  have os: "onSaveRef ?st = failingHandler" using step(4) by (simp add: demoHookProps_def)
  have a: "lastSavedDataRef (elapse demoDeps 1300 ?st) = Some ''Q1;Sales:12,''"
    using fireTimer_single(2)[OF tm, where dp=demoDeps and now=1300]
    by (simp add: el demo_fingerprint demoShow_def)
  have b: "uncaught (elapse demoDeps 1300 ?st) = [Thrown ''update failed'']"
    using fireTimer_single(5)[OF tm, where dp=demoDeps and now=1300]
    apply (simp add: el os)
    apply (simp add: failingHandler_def handleSaveData_def failingProps_def isLiveUpdate_def
        liveOpt_def Let_def)
    apply (simp add: demoSession_def renderHook_def Let_def mountState_def demoHookProps_def
      resetEffect_def initEffect_def liveEffect_def hasData_def demoChart_def demoDeps_def
      padded_def demoJsonValues_def demoShow_def setTimeout300_def clearCurrent_def)
    done
  have one': "oneTimer (elapse demoDeps 1300 ?st)" using one by (rule oneTimer_elapse)
  have c: "timers (renderHook demoDeps 2000 ?p (elapse demoDeps 1300 ?st)) = []"
    using one' by (rule renderHook_equal_no_timer) (simp add: a demo_fingerprint demoShow_def)
  show ?thesis
    using a b c by (simp add: demoSession_fields)
qed

lemma demoSession_nextTimer: "nextTimer (demoSession h) = 1"
  by (simp add: demoSession_def renderHook_def Let_def mountState_def demoHookProps_def
      resetEffect_def initEffect_def liveEffect_def hasData_def demoChart_def demoDeps_def
      padded_def demoJsonValues_def demoShow_def)

lemma demoPending_fields:
  "oneTimer demoPending"
  "timers demoPending = [demoTimer]"
  "initializedRef demoPending"
  "prevIsOpen demoPending = Some True"
  "onSaveRef demoPending = failingHandler"
proof -
  have lp: "liveProps (demoHookProps failingHandler 12)"
    by (simp add: liveProps_def hasData_def demoHookProps_def demoChart_def failingHandler_def)
  note step = renderHook_burst_step[OF demoSession_fields(2,3,4) lp, where dp=demoDeps and now=1000]
  show "oneTimer demoPending"
    unfolding demoPending_def using demoSession_fields(2) by (rule renderHook_oneTimer)
  show "timers demoPending = [demoTimer]"
    using step(5)
    by (simp add: demoPending_def demoTimer_def demoSession_fields demoSession_nextTimer
        demo_fingerprint demoShow_def)
  show "initializedRef demoPending" using step(2) by (simp add: demoPending_def)
  show "prevIsOpen demoPending = Some True" using step(3) by (simp add: demoPending_def)
  show "onSaveRef demoPending = failingHandler"
    using step(4) by (simp add: demoPending_def demoHookProps_def)
qed

text \<open>
  Claim C2, amended: when \<open>pushSnapshot\<close> throws during a live commit, \<open>handleSaveData\<close>
  logs the error and still calls \<open>updateSlideElement\<close>.  Whatever the commit callback does
  (what it throws leaves the timer callback uncaught), the last-committed fingerprint has
  already been advanced to the dataset being committed, so a following render with the
  same serialisation arms no timer and the commit is not retried; the session goes on: a
  following change with another serialisation arms the debounce timer as usual.
\<close>

theorem commit_failure_behaviour:
  assumes "timers st = [tm]" "initializedRef st" "prevIsOpen st = Some True"
    "onSaveRef st = Some f" "selectedElement cp = Some el" "pushSnapshot cp = Some g"
    "g \<lparr>snapSlides = slides cp, snapSelectedElement = el,
        snapCurrentSlideIndex = currentSlideIndex cp\<rparr> = Some err"
  shows "handleSaveData cp r u liveOpt =
           (updateSlideElement cp (elId el) (u\<lparr>internal := Some ''chart-live''\<rparr>), True,
            [PushSnapshot \<lparr>snapSlides = slides cp, snapSelectedElement = el,
                           snapCurrentSlideIndex = currentSlideIndex cp\<rparr>,
             ConsoleError ''Failed to snapshot chart edit:'' err,
             UpdateSlideElement (elId el) (u\<lparr>internal := Some ''chart-live''\<rparr>)]) \<and>
         lastSavedDataRef (fireTimer dp now tm st) = Some (fingerprint dp (snd (snd tm))) \<and>
         uncaught (fireTimer dp now tm st) =
           uncaught st @
           (case f (padded dp (snd (snd tm))) liveOpt of None \<Rightarrow> [] | Some thrown \<Rightarrow> [thrown]) \<and>
         (fingerprint dp p = fingerprint dp (snd (snd tm)) \<longrightarrow>
            timers (renderHook dp t p (fireTimer dp now tm st)) = []) \<and>
         (liveProps p \<and> fingerprint dp p \<noteq> fingerprint dp (snd (snd tm)) \<longrightarrow>
            map snd (timers (renderHook dp t p (fireTimer dp now tm st))) = [(t + 300, p)])"
proof -
  let ?st' = "fireTimer dp now tm st"
  note fire = fireTimer_single[OF assms(1), where dp=dp and now=now]
  have one': "oneTimer ?st'" using fire(1) by (rule oneTimer_no_timer)
  have a: "handleSaveData cp r u liveOpt =
           (updateSlideElement cp (elId el) (u\<lparr>internal := Some ''chart-live''\<rparr>), True,
            [PushSnapshot \<lparr>snapSlides = slides cp, snapSelectedElement = el,
                           snapCurrentSlideIndex = currentSlideIndex cp\<rparr>,
             ConsoleError ''Failed to snapshot chart edit:'' err,
             UpdateSlideElement (elId el) (u\<lparr>internal := Some ''chart-live''\<rparr>)])"
    using assms(5,6,7) by (simp add: handleSaveData_def isLiveUpdate_def liveOpt_def Let_def)
  have b: "lastSavedDataRef ?st' = Some (fingerprint dp (snd (snd tm)))" by (rule fire(2))
  have c: "uncaught ?st' =
           uncaught st @
           (case f (padded dp (snd (snd tm))) liveOpt of None \<Rightarrow> [] | Some thrown \<Rightarrow> [thrown])"
    using fire(5) by (simp add: assms(4))
  have d: "fingerprint dp p = fingerprint dp (snd (snd tm)) \<longrightarrow>
            timers (renderHook dp t p ?st') = []"
    using renderHook_equal_no_timer[OF one', where dp=dp and p=p and now=t] b by simp
  have i': "initializedRef ?st'" using fire(3) assms(2) by simp
  have o': "prevIsOpen ?st' = Some True" using fire(4) assms(3) by simp
  have e: "liveProps p \<and> fingerprint dp p \<noteq> fingerprint dp (snd (snd tm)) \<longrightarrow>
            map snd (timers (renderHook dp t p ?st')) = [(t + 300, p)]"
    using renderHook_after_fire[OF one' i' o', where dp=dp and p=p and now=t] b by simp
  from a b c d e show ?thesis by blast
qed

text \<open>
  Witness for claim C2 (amended): a live commit of the value 12 through a handler whose
  \<open>pushSnapshot\<close> and \<open>updateSlideElement\<close> both throw.
\<close>

theorem commit_failure_behaviour_witness:
  "handleSaveData failingProps False (demoUpdates ''12'') liveOpt =
     (Some (Thrown ''update failed''), True,
      [PushSnapshot demoArg,
       ConsoleError ''Failed to snapshot chart edit:'' (Thrown ''history unavailable''),
       UpdateSlideElement ''chart-1'' \<lparr>payload = ''12'', internal = Some ''chart-live''\<rparr>]) \<and>
   lastSavedDataRef (fireTimer demoDeps 1300 demoTimer demoPending) = Some ''Q1;Sales:12,'' \<and>
   uncaught (fireTimer demoDeps 1300 demoTimer demoPending) = [Thrown ''update failed''] \<and>
   timers (renderHook demoDeps 2000 (demoHookProps failingHandler 12)
      (fireTimer demoDeps 1300 demoTimer demoPending)) = [] \<and>
   map snd (timers (renderHook demoDeps 2000 (demoHookProps failingHandler 123)
      (fireTimer demoDeps 1300 demoTimer demoPending))) =
     [(2300, demoHookProps failingHandler 123)]"
proof -
  have h5: "onSaveRef demoPending =
      Some (\<lambda>u options. fst (handleSaveData failingProps False u options))"
    by (simp add: demoPending_fields failingHandler_def)
  have h6: "selectedElement (failingProps :: string chartOptionsProps) = Some demoChart"
    by (simp add: failingProps_def)
  have h7: "pushSnapshot (failingProps :: string chartOptionsProps) =
      Some (\<lambda>arg. Some (Thrown ''history unavailable''))"
    by (simp add: failingProps_def)
  have h8: "(\<lambda>arg. Some (Thrown ''history unavailable''))
      \<lparr>snapSlides = slides (failingProps :: string chartOptionsProps),
       snapSelectedElement = demoChart,
       snapCurrentSlideIndex = currentSlideIndex (failingProps :: string chartOptionsProps)\<rparr> =
      Some (Thrown ''history unavailable'')"
    by simp
  have un: "uncaught demoPending = []"
    by (simp add: demoPending_def renderHook_def demoSession_def Let_def mountState_def
        demoHookProps_def resetEffect_def initEffect_def liveEffect_def hasData_def demoChart_def
        demoDeps_def padded_def demoJsonValues_def demoShow_def setTimeout300_def clearCurrent_def)
  have lp: "liveProps (demoHookProps failingHandler 123)"
    by (simp add: liveProps_def hasData_def demoHookProps_def demoChart_def failingHandler_def)
  note inst = commit_failure_behaviour[OF demoPending_fields(2,3,4) h5 h6 h7 h8,
      where dp=demoDeps and now=1300 and t=2000 and r=False and u="demoUpdates ''12''"]
  note i12 = inst[where p="demoHookProps failingHandler 12"]
  note i123 = inst[where p="demoHookProps failingHandler 123"]
  have a: "handleSaveData failingProps False (demoUpdates ''12'') liveOpt =
     (Some (Thrown ''update failed''), True,
      [PushSnapshot demoArg,
       ConsoleError ''Failed to snapshot chart edit:'' (Thrown ''history unavailable''),
       UpdateSlideElement ''chart-1'' \<lparr>payload = ''12'', internal = Some ''chart-live''\<rparr>])"
    using i12[THEN conjunct1]
    by (simp add: failingProps_def demoArg_def demoUpdates_def demoChart_def)
  have b: "lastSavedDataRef (fireTimer demoDeps 1300 demoTimer demoPending) = Some ''Q1;Sales:12,''"
    using i12[THEN conjunct2, THEN conjunct1]
    by (simp add: demoTimer_def demo_fingerprint demoShow_def)
  have thrown: "fst (handleSaveData failingProps False u liveOpt) = Some (Thrown ''update failed'')"
    for u :: "(string list \<times> series list) updates"
    by (simp add: handleSaveData_def failingProps_def isLiveUpdate_def liveOpt_def Let_def)
  have c: "uncaught (fireTimer demoDeps 1300 demoTimer demoPending) = [Thrown ''update failed'']"
    using i12[THEN conjunct2, THEN conjunct2, THEN conjunct1]
    by (simp add: un thrown)
  have d: "timers (renderHook demoDeps 2000 (demoHookProps failingHandler 12)
      (fireTimer demoDeps 1300 demoTimer demoPending)) = []"
    using i12[THEN conjunct2, THEN conjunct2, THEN conjunct2, THEN conjunct1]
    by (simp add: demoTimer_def)
  have e: "map snd (timers (renderHook demoDeps 2000 (demoHookProps failingHandler 123)
      (fireTimer demoDeps 1300 demoTimer demoPending))) =
     [(2300, demoHookProps failingHandler 123)]"
    using i123[THEN conjunct2, THEN conjunct2, THEN conjunct2, THEN conjunct2] lp
    by (simp add: demoTimer_def demo_fingerprint demoShow_def)
  from a b c d e show ?thesis by blast
qed

section \<open>Properties of the numeric fields\<close>

lemma demoRow_eval:
  "isMountedRef demoRow" "prevSeriesRef demoRow = demoSeries 5 1"
  "focusedInputs demoRow = {(0, 0)}"
  "displayValues demoRow (0, 0) = Some []" "displayValues demoRow (1, 0) = Some ''1''"
  by (simp_all add: demoRow_def rowHandleValueChange_def rowHandleValueFocus_def tableRowMount_def
      tableRowInitial_def initialDisplayValues_def demoSeries_def valueAt_def displayOf_def
      demoShow_def upt_rec)

lemma demoPieState_eval:
  "pieMountedRef demoPieState"
  "prevValuesRef demoPieState = Some [Item (Num 5), Item (Num 1)]"
  "pieFocusedInputs demoPieState = {0}"
  "pieDisplayValues demoPieState 0 = Some []" "pieDisplayValues demoPieState 1 = Some ''1''"
  by (simp_all add: demoPieState_def pieHandleValueChange_def pieHandleValueFocus_def pieMount_def
      pieInitial_def pieInitialDisplayValues_def demoPie_def valuesOf_def displayOf_def
      demoShow_def upt_rec)

lemma newDisplayValues_foldl:
  "foldl (\<lambda>m seriesIndex.
              if (seriesIndex, rowIndex) \<in> focused then m
              else m((seriesIndex, rowIndex) \<mapsto> g seriesIndex)) m0 [0..<n] k =
   (if snd k = rowIndex \<and> fst k < n \<and> k \<notin> focused then Some (g (fst k)) else m0 k)"
proof (induction n)
  case 0
  then show ?case by simp
next
  case (Suc n)
  then show ?case
    by (cases k) (auto simp: less_Suc_eq)
qed

lemma newDisplayValues_apply:
  "newDisplayValues toString focused ss rowIndex k =
   (if snd k = rowIndex \<and> fst k < length ss \<and> k \<notin> focused
    then Some (displayOf toString (valueAt (svalues (ss ! fst k)) rowIndex)) else None)"
  unfolding newDisplayValues_def by (simp add: newDisplayValues_foldl)

lemma pieNewDisplayValues_foldl:
  "foldl (\<lambda>m index. case vs ! index of
                       Hole \<Rightarrow> m
                     | Item v \<Rightarrow> if index \<in> focused then m else m(index \<mapsto> g v)) m0 [0..<n] k =
   (if k < n \<and> k \<notin> focused
    then (case vs ! k of Hole \<Rightarrow> m0 k | Item v \<Rightarrow> Some (g v)) else m0 k)"
proof (induction n)
  case 0
  then show ?case by simp
next
  case (Suc n)
  then show ?case by (auto simp: less_Suc_eq split: slot.splits)
qed

lemma pieNewDisplayValues_apply:
  "pieNewDisplayValues toString focused vs k =
   (if k < length vs \<and> k \<notin> focused
    then (case vs ! k of Hole \<Rightarrow> None | Item v \<Rightarrow> Some (displayOf toString v)) else None)"
  unfolding pieNewDisplayValues_def by (simp add: pieNewDisplayValues_foldl)

text \<open>
  What the two effects do when the serialised dataset has changed.  The table row
  refreshes every unfocused field of the row, reading the value by index.  The pie data
  points refresh the unfocused fields whose index holds an element of the new \<open>values\<close>
  array; a field whose index is a hole of the array, or lies beyond its end, keeps its
  entry.  Focused fields keep their entries in both.
\<close>

lemma tableRowSync_refresh:
  assumes "isMountedRef st" "json (prevSeriesRef st) \<noteq> json ss"
  shows "\<forall>seriesIndex < length ss. (seriesIndex, rowIndex) \<notin> focusedInputs st \<longrightarrow>
           displayValues (tableRowSync json toString ss rowIndex st) (seriesIndex, rowIndex) =
             Some (displayOf toString (valueAt (svalues (ss ! seriesIndex)) rowIndex))"
    and "\<forall>k \<in> focusedInputs st.
           displayValues (tableRowSync json toString ss rowIndex st) k = displayValues st k"
    and "focusedInputs (tableRowSync json toString ss rowIndex st) = focusedInputs st"
  using assms
  by (simp_all add: tableRowSync_def map_add_def newDisplayValues_apply)

lemma pieSync_refresh:
  assumes "pieMountedRef st"
    "json (case prevValuesRef st of None \<Rightarrow> [] | Some vs \<Rightarrow> vs) \<noteq> json (valuesOf el)"
  shows "\<forall>index < length (valuesOf el). index \<notin> pieFocusedInputs st \<longrightarrow>
           pieDisplayValues (pieSync json toString el st) index =
             (case valuesOf el ! index of
                Hole \<Rightarrow> pieDisplayValues st index
              | Item v \<Rightarrow> Some (displayOf toString v))"
    and "\<forall>index. length (valuesOf el) \<le> index \<longrightarrow>
           pieDisplayValues (pieSync json toString el st) index = pieDisplayValues st index"
    and "\<forall>index \<in> pieFocusedInputs st.
           pieDisplayValues (pieSync json toString el st) index = pieDisplayValues st index"
    and "pieFocusedInputs (pieSync json toString el st) = pieFocusedInputs st"
  using assms
  by (simp_all add: pieSync_def Let_def map_add_def pieNewDisplayValues_apply split: slot.splits)

lemma pieAfterThird_eval:
  "pieMountedRef pieAfterThird" "pieFocusedInputs pieAfterThird = {}"
  "prevValuesRef pieAfterThird = Some [Hole, Hole, Item (Num 12)]"
  "pieDisplayValues pieAfterThird 0 = None" "pieDisplayValues pieAfterThird 1 = None"
  "pieDisplayValues pieAfterThird 2 = Some ''12''"
  by (simp_all add: pieAfterThird_def pieHandleValueBlur_def pieSync_def pieHandleValueChange_def
      pieHandleValueFocus_def pieMount_def pieInitial_def pieInitialDisplayValues_def
      pieNewDisplayValues_def pieBare_def pieSparse_def valuesOf_def demoJsonSlots_def
      demoShow_def Let_def map_add_def upt_rec)

lemma pieAfterFirst_eval:
  "pieMountedRef pieAfterFirst" "pieFocusedInputs pieAfterFirst = {}"
  "prevValuesRef pieAfterFirst = Some [Item (Num 5), Item Undefined, Item (Num 12)]"
  "pieDisplayValues pieAfterFirst 0 = Some ''5''" "pieDisplayValues pieAfterFirst 1 = Some []"
  "pieDisplayValues pieAfterFirst 2 = Some ''12''"
  by (simp_all add: pieAfterFirst_def pieAfterThird_eval pieHandleValueBlur_def pieSync_def
      pieHandleValueChange_def pieHandleValueFocus_def pieNewDisplayValues_def pieBare_def
      pieSparse_def pieFilled_def valuesOf_def demoJsonSlots_def demoShow_def displayOf_def
      Let_def map_add_def upt_rec)

text \<open>
  Claim C7 requires every unfocused field to have its display entry refreshed from the
  new committed value when the dataset is updated from outside.  The table row does so
  (lemma \<open>tableRowSync_refresh\<close>): it reads each value by index, so a value that is no
  longer there resets the field to the empty string.  The pie data points iterate over
  the \<open>values\<close> array with \<open>forEach\<close>, which visits neither the holes of a sparse array nor
  the indices beyond its end, although the loop body resets a field whose value is
  \<open>undefined\<close>.  The component commits sparse arrays itself: typing 12 into the third field
  of an element without values commits \<open>[, , 12]\<close>.  After 5 has been typed into the
  first field and the field has been left, an external update back to \<open>[, , 12]\<close> (an
  undo) leaves the unfocused first field showing 5, although its committed value is
  \<open>undefined\<close>.  Likewise an update that shortens \<open>[5, 1]\<close> to \<open>[12]\<close> leaves the second
  field showing 1, where the table row shows the empty string.
\<close>

theorem stale_pie_field_after_update:
  "snd (pieHandleValueChange demoNumber pieBare 2 ''12''
         (pieHandleValueFocus 2 (pieMount demoShow pieBare (pieInitial pieBare)))) =
     Some (''pie-1'', \<lparr>uvalues = [Hole, Hole, Item (Num 12)], clearsSeries = True\<rparr>) \<and>
   pieFocusedInputs pieAfterFirst = {} \<and>
   pieFieldDisplay demoShow pieFilled pieAfterFirst 0 = ''5'' \<and>
   slotAt (valuesOf pieSparse) 0 = Undefined \<and>
   prevValuesRef (pieSync demoJsonSlots demoShow pieSparse pieAfterFirst) =
     Some [Hole, Hole, Item (Num 12)] \<and>
   pieFieldDisplay demoShow pieSparse (pieSync demoJsonSlots demoShow pieSparse pieAfterFirst) 0 =
     ''5'' \<and>
   pieFieldDisplay demoShow ((demoPie 5 1)\<lparr>evalues := Some [Item (Num 12)]\<rparr>)
     (pieSync demoJsonSlots demoShow ((demoPie 5 1)\<lparr>evalues := Some [Item (Num 12)]\<rparr>)
       (pieMount demoShow (demoPie 5 1) (pieInitial (demoPie 5 1)))) 1 = ''1'' \<and>
   displayValues
     (tableRowSync demoJson demoShow
        [\<lparr>sname = ''Sales'', svalues = [Num 12]\<rparr>, \<lparr>sname = ''Costs'', svalues = []\<rparr>] 0
        (tableRowMount demoShow (demoSeries 5 1) 0 (tableRowInitial (demoSeries 5 1)))) (1, 0) =
     Some []"
proof -
  have a: "snd (pieHandleValueChange demoNumber pieBare 2 ''12''
         (pieHandleValueFocus 2 (pieMount demoShow pieBare (pieInitial pieBare)))) =
     Some (''pie-1'', \<lparr>uvalues = [Hole, Hole, Item (Num 12)], clearsSeries = True\<rparr>)"
    by (simp add: pieHandleValueChange_def pieBare_def valuesOf_def spread_def arraySet_def
        pieUpdatesFor_def finalValue_def demoNumber_def numeral_2_eq_2)
  have b: "pieFieldDisplay demoShow pieFilled pieAfterFirst 0 = ''5''"
    by (simp add: pieFieldDisplay_def pieAfterFirst_eval)
  have c: "slotAt (valuesOf pieSparse) 0 = Undefined"
    by (simp add: slotAt_def valuesOf_def pieSparse_def pieBare_def)
  have ch: "demoJsonSlots [Item (Num 5), Item Undefined, Item (Num 12)] \<noteq>
      demoJsonSlots [Hole, Hole, Item (Num 12)]"
    by (simp add: demoJsonSlots_def demoShow_def)
  have d: "prevValuesRef (pieSync demoJsonSlots demoShow pieSparse pieAfterFirst) =
     Some [Hole, Hole, Item (Num 12)]"
    using ch by (simp add: pieSync_def Let_def pieAfterFirst_eval valuesOf_def pieSparse_def pieBare_def)
  have e0: "pieDisplayValues (pieSync demoJsonSlots demoShow pieSparse pieAfterFirst) 0 = Some ''5''"
    using ch
    by (simp add: pieSync_def Let_def pieAfterFirst_eval valuesOf_def pieSparse_def pieBare_def
        map_add_def pieNewDisplayValues_apply)
  have e: "pieFieldDisplay demoShow pieSparse
      (pieSync demoJsonSlots demoShow pieSparse pieAfterFirst) 0 = ''5''"
    using e0 by (simp add: pieFieldDisplay_def)
  have f0: "pieDisplayValues
      (pieSync demoJsonSlots demoShow ((demoPie 5 1)\<lparr>evalues := Some [Item (Num 12)]\<rparr>)
        (pieMount demoShow (demoPie 5 1) (pieInitial (demoPie 5 1)))) 1 = Some ''1''"
    by (simp add: pieSync_def Let_def pieMount_def pieInitial_def demoPie_def valuesOf_def
        map_add_def pieNewDisplayValues_apply pieInitialDisplayValues_def demoJsonSlots_def
        demoShow_def displayOf_def upt_rec)
  have f: "pieFieldDisplay demoShow ((demoPie 5 1)\<lparr>evalues := Some [Item (Num 12)]\<rparr>)
     (pieSync demoJsonSlots demoShow ((demoPie 5 1)\<lparr>evalues := Some [Item (Num 12)]\<rparr>)
       (pieMount demoShow (demoPie 5 1) (pieInitial (demoPie 5 1)))) 1 = ''1''"
    using f0 by (simp add: pieFieldDisplay_def)
  have g: "displayValues
     (tableRowSync demoJson demoShow
        [\<lparr>sname = ''Sales'', svalues = [Num 12]\<rparr>, \<lparr>sname = ''Costs'', svalues = []\<rparr>] 0
        (tableRowMount demoShow (demoSeries 5 1) 0 (tableRowInitial (demoSeries 5 1)))) (1, 0) =
     Some []"
    by (simp add: tableRowSync_def tableRowMount_def tableRowInitial_def demoSeries_def
        demoJson_def demoJsonValues_def demoShow_def map_add_def newDisplayValues_apply
        valueAt_def displayOf_def)
  from a b c d e f g show ?thesis by (simp add: pieAfterFirst_eval)
qed



end
